theory Spec2Isabelle
  imports Main "HOL-Library.Sublist"
begin

section \<open>JavaScript strings\<close>

text \<open>
  A JavaScript string is held as the bytes of its UTF-8 encoding. The program only asks
  a string whether it is empty, whether it starts with or contains an ASCII text, and
  for its value with the white space trimmed; all of these read the same on the bytes.
\<close>

definition startsWith :: "string \<Rightarrow> string \<Rightarrow> bool" where
  "startsWith s p = prefix p s"

fun strIncludes :: "string \<Rightarrow> string \<Rightarrow> bool" where
  "strIncludes [] p = (p = [])"
| "strIncludes (c # cs) p = (prefix p (c # cs) \<or> strIncludes cs p)"

text \<open>
  \<open>String.prototype.trim\<close> removes WhiteSpace and LineTerminator code points from both
  ends: U+0009 to U+000D, U+0020, U+00A0, U+1680, U+2000 to U+200A, U+2028, U+2029,
  U+202F, U+205F, U+3000 and U+FEFF, listed here in UTF-8.
\<close>

definition whiteSpace :: "string list" where
  "whiteSpace =
    [[CHR 0x09], [CHR 0x0A], [CHR 0x0B], [CHR 0x0C], [CHR 0x0D], [CHR 0x20],
     [CHR 0xC2, CHR 0xA0],
     [CHR 0xE1, CHR 0x9A, CHR 0x80],
     [CHR 0xE2, CHR 0x80, CHR 0x80], [CHR 0xE2, CHR 0x80, CHR 0x81],
     [CHR 0xE2, CHR 0x80, CHR 0x82], [CHR 0xE2, CHR 0x80, CHR 0x83],
     [CHR 0xE2, CHR 0x80, CHR 0x84], [CHR 0xE2, CHR 0x80, CHR 0x85],
     [CHR 0xE2, CHR 0x80, CHR 0x86], [CHR 0xE2, CHR 0x80, CHR 0x87],
     [CHR 0xE2, CHR 0x80, CHR 0x88], [CHR 0xE2, CHR 0x80, CHR 0x89],
     [CHR 0xE2, CHR 0x80, CHR 0x8A],
     [CHR 0xE2, CHR 0x80, CHR 0xA8], [CHR 0xE2, CHR 0x80, CHR 0xA9],
     [CHR 0xE2, CHR 0x80, CHR 0xAF],
     [CHR 0xE2, CHR 0x81, CHR 0x9F],
     [CHR 0xE3, CHR 0x80, CHR 0x80],
     [CHR 0xEF, CHR 0xBB, CHR 0xBF]]"

definition matchLength :: "string list \<Rightarrow> string \<Rightarrow> nat" where
  "matchLength pats s =
     (case List.find (\<lambda>p. prefix p s) pats of None \<Rightarrow> 0 | Some p \<Rightarrow> length p)"

fun stripStart :: "string list \<Rightarrow> string \<Rightarrow> string" where
  "stripStart pats [] = []"
| "stripStart pats (c # cs) =
     (if matchLength pats (c # cs) = 0 then c # cs
      else stripStart pats (drop (matchLength pats (c # cs) - 1) cs))"

definition trimStart :: "string \<Rightarrow> string" where
  "trimStart s = stripStart whiteSpace s"

definition trimEnd :: "string \<Rightarrow> string" where
  "trimEnd s = rev (stripStart (map rev whiteSpace) (rev s))"

definition trim :: "string \<Rightarrow> string" where
  "trim s = trimEnd (trimStart s)"

section \<open>JSON values and the coercions the program applies to them\<close>

text \<open>
  The value \<open>Response.json()\<close> resolves with. The number type \<open>'n\<close> is left open: what
  the language does with a number (its text, its truth value, its comparison with zero)
  comes with the runtime below. A property that is \<open>undefined\<close> is \<open>None\<close>.
\<close>

datatype 'n json =
    JNull
  | JBool bool
  | JNum 'n
  | JStr string
  | JArr "'n json list"
  | JObj "(string \<times> 'n json) list"

text \<open>
  What the program takes from the browser and the language without defining it:
  whether \<open>document.querySelector\<close> accepts a selector (it throws a SyntaxError
  otherwise); whether, once a markup is assigned to the \<open>innerHTML\<close> of a detached
  \<open>div\<close>, \<open>querySelector\<close> on that \<open>div\<close> finds an element for a selector (the markup
  may hold text that the parser reads as markup of its own, for instance an unclosed
  \<open>textarea\<close>, and then the element written after it is not there); \<open>String(n)\<close>, the
  truth value of a number, \<open>n > 0\<close> for a number and \<open>s > 0\<close> for a string (the string
  converted to a number first).
\<close>

record 'n runtime =
  selectorOk :: "string \<Rightarrow> bool"
  fragmentHas :: "string \<Rightarrow> string \<Rightarrow> bool"
  numberText :: "'n \<Rightarrow> string"
  numberTruthy :: "'n \<Rightarrow> bool"
  numberPositive :: "'n \<Rightarrow> bool"
  textPositive :: "string \<Rightarrow> bool"

datatype error =
    RequiredError
  | IdSelectorError
  | SyntaxError string
  | TypeError string
  | HttpError nat
  | NetworkError string
  | BodyError string

text \<open>
  A step that may throw, followed by one that uses its result.
\<close>

definition after :: "error + 'a \<Rightarrow> ('a \<Rightarrow> error + 'b) \<Rightarrow> error + 'b" where
  "after r f = (case r of Inl e \<Rightarrow> Inl e | Inr x \<Rightarrow> f x)"

text \<open>
  \<open>String(v)\<close> as a template literal applies it. An array joins the texts of its
  elements with commas, \<open>null\<close> elements giving the empty text. An object parsed from
  JSON gives \<open>[object Object]\<close> through \<open>Object.prototype.toString\<close>, unless it has a key
  \<open>toString\<close> of its own: the value under that key is no function, \<open>valueOf\<close> gives no
  primitive value either, and the conversion throws a TypeError. The properties of an
  object are the first bindings of its keys.
\<close>

fun joinComma :: "string list \<Rightarrow> string" where
  "joinComma [] = []"
| "joinComma [x] = x"
| "joinComma (x # y # ys) = x @ '','' @ joinComma (y # ys)"

fun toText :: "'n runtime \<Rightarrow> 'n json \<Rightarrow> error + string"
  and elementTexts :: "'n runtime \<Rightarrow> 'n json list \<Rightarrow> error + string list" where
  "toText rt JNull = Inr ''null''"
| "toText rt (JBool b) = Inr (if b then ''true'' else ''false'')"
| "toText rt (JNum n) = Inr (numberText rt n)"
| "toText rt (JStr s) = Inr s"
| "toText rt (JArr xs) = after (elementTexts rt xs) (\<lambda>ts. Inr (joinComma ts))"
| "toText rt (JObj kvs) =
     (if map_of kvs ''toString'' = None then Inr ''[object Object]''
      else Inl (TypeError ''toString''))"
| "elementTexts rt [] = Inr []"
| "elementTexts rt (x # xs) =
     after (if x = JNull then Inr [] else toText rt x)
       (\<lambda>t. after (elementTexts rt xs) (\<lambda>ts. Inr (t # ts)))"

text \<open>The truth value of a property value, as \<open>clinic.mapUrl ? ... : ...\<close> reads it.\<close>

fun truthy :: "'n runtime \<Rightarrow> 'n json option \<Rightarrow> bool" where
  "truthy rt None = False"
| "truthy rt (Some JNull) = False"
| "truthy rt (Some (JBool b)) = b"
| "truthy rt (Some (JNum n)) = numberTruthy rt n"
| "truthy rt (Some (JStr s)) = (s \<noteq> [])"
| "truthy rt (Some (JArr xs)) = True"
| "truthy rt (Some (JObj kvs)) = True"

text \<open>
  \<open>v.name\<close> for a value \<open>v\<close> that is not \<open>null\<close> and the property names the program
  reads (area, clinics, name, hours, closed, address, stations, mapUrl): an object has
  the property when its key is there; arrays, strings, numbers and booleans have none
  of these names, nor do their prototypes. Reading a property of \<open>null\<close> throws a
  TypeError, which the callers write out.
\<close>

fun propOf :: "'n json \<Rightarrow> string \<Rightarrow> 'n json option" where
  "propOf (JObj kvs) k = map_of kvs k"
| "propOf v k = None"

text \<open>\<open>${v}\<close>: the text of a property value.\<close>

fun textOf :: "'n runtime \<Rightarrow> 'n json option \<Rightarrow> error + string" where
  "textOf rt None = Inr ''undefined''"
| "textOf rt (Some v) = toText rt v"

text \<open>\<open>${v ?? ''}\<close>: the empty text for \<open>undefined\<close> and \<open>null\<close>, the value's text otherwise.\<close>

fun orEmpty :: "'n runtime \<Rightarrow> 'n json option \<Rightarrow> error + string" where
  "orEmpty rt None = Inr []"
| "orEmpty rt (Some JNull) = Inr []"
| "orEmpty rt (Some v) = toText rt v"

text \<open>
  \<open>v > 0\<close> for a property value: \<open>undefined\<close> converts to NaN, \<open>null\<close> to 0, \<open>true\<close> to
  1; an array and an object convert to their text first, which may throw, and the text
  of an object is no number.
\<close>

fun positive :: "'n runtime \<Rightarrow> 'n json option \<Rightarrow> error + bool" where
  "positive rt None = Inr False"
| "positive rt (Some JNull) = Inr False"
| "positive rt (Some (JBool b)) = Inr b"
| "positive rt (Some (JNum n)) = Inr (numberPositive rt n)"
| "positive rt (Some (JStr s)) = Inr (textPositive rt s)"
| "positive rt (Some (JArr xs)) = after (toText rt (JArr xs)) (\<lambda>s. Inr (textPositive rt s))"
| "positive rt (Some (JObj kvs)) = after (toText rt (JObj kvs)) (\<lambda>s. Inr False)"

text \<open>
  \<open>v.length > 0\<close>: the number of elements of an array, the length of a string, the
  \<open>length\<close> property of an object if it has one; numbers and booleans have no length;
  \<open>null.length\<close> throws.
\<close>

fun lengthPositive :: "'n runtime \<Rightarrow> 'n json \<Rightarrow> error + bool" where
  "lengthPositive rt JNull = Inl (TypeError ''length'')"
| "lengthPositive rt (JArr xs) = Inr (xs \<noteq> [])"
| "lengthPositive rt (JStr s) = Inr (s \<noteq> [])"
| "lengthPositive rt (JObj kvs) = positive rt (map_of kvs ''length'')"
| "lengthPositive rt v = Inr False"

section \<open>The page: document, network log and console\<close>

text \<open>
  A node of the document is kept as the markup the program hands to the browser's
  parsers: the root of an SVG document parsed from a text, the accordion list with, for
  each area, the markup of its item and the markup of each clinic inserted into its
  body, and a style element with its text. \<open>HostNode\<close> is content of the host page.
\<close>

datatype node =
    HostNode string
  | SvgRoot string
  | AccordionList "(string \<times> string list) list"
  | StyleElement string

datatype entry =
    PromisesLogged bool bool bool
  | ErrorLogged error

text \<open>
  The three marker elements are reached through \<open>document.querySelector\<close> only, so the
  document is the map from a selector to the children of the first element it matches
  (\<open>None\<close>: no match), with the children of \<open>head\<close>. The marker elements are taken to be
  three different elements, none inside another. \<open>requests\<close> lists the URLs handed to
  \<open>fetch\<close>, \<open>console\<close> what was logged, both in order.
\<close>

record world =
  slots :: "string \<rightharpoonup> node list"
  headNodes :: "node list"
  requests :: "string list"
  console :: "entry list"

definition querySelector :: "'n runtime \<Rightarrow> world \<Rightarrow> string \<Rightarrow> error + node list option" where
  "querySelector rt w sel =
     (if selectorOk rt sel then Inr (slots w sel) else Inl (SyntaxError sel))"

section \<open>embedClinicMap: validation, colours, state\<close>

record colors =
  mainColorOpt :: "string option"
  subColorOpt :: "string option"

record config =
  parentSelectorOpt :: "string option"
  clinicTypeOpt :: "string option"
  colorsOpt :: "colors option"

record 'n embedder =
  parentSelector :: string
  clinicType :: string
  mainColor :: string
  subColor :: string
  titleSvg :: string
  mapSvg :: string
  clinicDetails :: "'n json"
  isVisibleTitle :: bool
  isVisibleMap :: bool
  isVisibleDetailsAccordion :: bool

definition titleSelector :: "string \<Rightarrow> string" where
  "titleSelector ps = ps @ '' [data-cl-title]''"

definition mapSelector :: "string \<Rightarrow> string" where
  "mapSelector ps = ps @ '' [data-cl-map]''"

definition detailsSelector :: "string \<Rightarrow> string" where
  "detailsSelector ps = ps @ '' [data-cl-details-accordion]''"

definition defaultColors :: colors where
  "defaultColors = \<lparr>mainColorOpt = Some ''#000'', subColorOpt = Some ''#fff''\<rparr>"

text \<open>\<open>{...defaultColors, ...colors}\<close>: a key of \<open>colors\<close> wins where it is there.\<close>

definition mergedColors :: "colors \<Rightarrow> colors" where
  "mergedColors c =
     \<lparr>mainColorOpt = (case mainColorOpt c of None \<Rightarrow> mainColorOpt defaultColors | Some m \<Rightarrow> Some m),
      subColorOpt = (case subColorOpt c of None \<Rightarrow> subColorOpt defaultColors | Some s \<Rightarrow> Some s)\<rparr>"

text \<open>
  The factory. An absent field is \<open>None\<close>; \<open>!parentSelector\<close> also holds of the empty
  string. \<open>colors\<close> defaults to the empty object. The three probes of the state object
  run in the order title, map, details, and a selector the browser rejects makes the
  first of them throw.
\<close>

definition falsy :: "string option \<Rightarrow> bool" where
  "falsy v = (case v of None \<Rightarrow> True | Some s \<Rightarrow> s = [])"

definition noColors :: colors where
  "noColors = \<lparr>mainColorOpt = None, subColorOpt = None\<rparr>"

definition state :: "string \<Rightarrow> string \<Rightarrow> colors \<Rightarrow> bool \<Rightarrow> bool \<Rightarrow> bool \<Rightarrow> 'n embedder" where
  "state ps ct merged t m d =
     \<lparr>parentSelector = ps, clinicType = ct,
      mainColor = (case mainColorOpt merged of None \<Rightarrow> ''undefined'' | Some c \<Rightarrow> c),
      subColor = (case subColorOpt merged of None \<Rightarrow> ''undefined'' | Some c \<Rightarrow> c),
      titleSvg = [], mapSvg = [], clinicDetails = JObj [],
      isVisibleTitle = t, isVisibleMap = m, isVisibleDetailsAccordion = d\<rparr>"

definition embedClinicMap :: "'n runtime \<Rightarrow> world \<Rightarrow> config \<Rightarrow> error + 'n embedder" where
  "embedClinicMap rt w cfg =
     (if falsy (parentSelectorOpt cfg) \<or> falsy (clinicTypeOpt cfg) then Inl RequiredError
      else
        case (parentSelectorOpt cfg, clinicTypeOpt cfg, colorsOpt cfg) of
          (Some ps, Some ct, colors) \<Rightarrow>
            if \<not> startsWith (trim ps) ''#'' then Inl IdSelectorError
            else
              (case querySelector rt w (titleSelector ps) of
                 Inl e \<Rightarrow> Inl e
               | Inr t \<Rightarrow>
              (case querySelector rt w (mapSelector ps) of
                 Inl e \<Rightarrow> Inl e
               | Inr m \<Rightarrow>
              (case querySelector rt w (detailsSelector ps) of
                 Inl e \<Rightarrow> Inl e
               | Inr d \<Rightarrow>
                   Inr (state ps ct
                          (mergedColors (case colors of None \<Rightarrow> noColors | Some c \<Rightarrow> c))
                          (t \<noteq> None) (m \<noteq> None) (d \<noteq> None)))))
        | _ \<Rightarrow> Inl RequiredError)"

section \<open>The markup of the accordion and the stylesheet\<close>

text \<open>
  The template literals of the program, line by line. Text outside ASCII is named and
  given by its bytes.
\<close>

text \<open>The word after the area name in a header: U+30A8 U+30EA U+30A2.\<close>

definition areaWord :: string where
  "areaWord = [CHR 0xE3, CHR 0x82, CHR 0xA8, CHR 0xE3, CHR 0x83, CHR 0xAA, CHR 0xE3, CHR 0x82, CHR 0xA2]"

text \<open>The table heading of the consultation hours: U+8A3A U+7642 U+6642 U+9593.\<close>

definition hoursLabel :: string where
  "hoursLabel = [CHR 0xE8, CHR 0xA8, CHR 0xBA, CHR 0xE7, CHR 0x99, CHR 0x82, CHR 0xE6, CHR 0x99, CHR 0x82, CHR 0xE9, CHR 0x96, CHR 0x93]"

text \<open>The table heading of the closed days: U+4F11 U+8A3A U+65E5.\<close>

definition closedLabel :: string where
  "closedLabel = [CHR 0xE4, CHR 0xBC, CHR 0x91, CHR 0xE8, CHR 0xA8, CHR 0xBA, CHR 0xE6, CHR 0x97, CHR 0xA5]"

text \<open>The table heading of the address: U+4F4F U+6240.\<close>

definition addressLabel :: string where
  "addressLabel = [CHR 0xE4, CHR 0xBD, CHR 0x8F, CHR 0xE6, CHR 0x89, CHR 0x80]"

text \<open>The table heading of the nearest stations: U+6700 U+5BC4 U+99C5.\<close>

definition stationsLabel :: string where
  "stationsLabel = [CHR 0xE6, CHR 0x9C, CHR 0x80, CHR 0xE5, CHR 0xAF, CHR 0x84, CHR 0xE9, CHR 0xA7, CHR 0x85]"

text \<open>The stylesheet comment before the accordion rules: U+8A73 U+7D30 U+30A2 U+30B3 U+30FC U+30C7 U+30A3 U+30AA U+30F3.\<close>

definition accordionComment :: string where
  "accordionComment = [CHR 0xE8, CHR 0xA9, CHR 0xB3, CHR 0xE7, CHR 0xB4, CHR 0xB0, CHR 0xE3, CHR 0x82, CHR 0xA2, CHR 0xE3, CHR 0x82, CHR 0xB3, CHR 0xE3, CHR 0x83, CHR 0xBC, CHR 0xE3, CHR 0x83, CHR 0x87, CHR 0xE3, CHR 0x82, CHR 0xA3, CHR 0xE3, CHR 0x82, CHR 0xAA, CHR 0xE3, CHR 0x83, CHR 0xB3]"

text \<open>The stylesheet comment before the accordion colour rule: U+30A2 U+30B3 U+30FC U+30C7 U+30A3 U+30AA U+30F3 U+8272 U+8A2D U+5B9A.\<close>

definition accordionColorComment :: string where
  "accordionColorComment = [CHR 0xE3, CHR 0x82, CHR 0xA2, CHR 0xE3, CHR 0x82, CHR 0xB3, CHR 0xE3, CHR 0x83, CHR 0xBC, CHR 0xE3, CHR 0x83, CHR 0x87, CHR 0xE3, CHR 0x82, CHR 0xA3, CHR 0xE3, CHR 0x82, CHR 0xAA, CHR 0xE3, CHR 0x83, CHR 0xB3, CHR 0xE8, CHR 0x89, CHR 0xB2, CHR 0xE8, CHR 0xA8, CHR 0xAD, CHR 0xE5, CHR 0xAE, CHR 0x9A]"

definition areaHtml :: "string \<Rightarrow> string" where
  \<open>areaHtml area =
     concat
     [''\<newline>'',
      ''        <div class="cl-details-acd__list-item">\<newline>'',
      ''          <label class="cl-details-acd__list-item-header">\<newline>'',
      ''            <input type="checkbox">\<newline>'',
      ''            '', area, areaWord, ''\<newline>'',
      ''          </label>\<newline>'',
      ''          <div class="cl-details-acd__list-item-body"></div>\<newline>'',
      ''        </div>\<newline>'',
      ''      '']\<close>

definition iframeMarkup :: "string \<Rightarrow> string" where
  \<open>iframeMarkup mapUrl =
     concat
     [''<iframe src="'', mapUrl, ''" width="600" height="450" style="border:0;" allowfullscreen="" loading="lazy" referrerpolicy="no-referrer-when-downgrade" class="cl-details-acd__list-sub-item-iframe"></iframe>'']\<close>

definition shopHtml :: "string \<Rightarrow> string \<Rightarrow> string \<Rightarrow> string \<Rightarrow> string \<Rightarrow> string \<Rightarrow> string" where
  \<open>shopHtml name hours closed address stations iframeHtml =
     concat
     [''\<newline>'',
      ''        <div class="cl-details-acd__list-sub-item">\<newline>'',
      ''          <div class="cl-details-acd__list-sub-item-header">'', name, ''</div>\<newline>'',
      ''          <table class="cl-details-acd__list-sub-item-table">\<newline>'',
      ''            <tr>\<newline>'',
      ''              <th>'', hoursLabel, ''</th>\<newline>'',
      ''              <td>'', hours, ''</td>\<newline>'',
      ''            </tr>\<newline>'',
      ''            <tr>\<newline>'',
      ''              <th>'', closedLabel, ''</th>\<newline>'',
      ''              <td>'', closed, ''</td>\<newline>'',
      ''            </tr>\<newline>'',
      ''            <tr>\<newline>'',
      ''              <th>'', addressLabel, ''</th>\<newline>'',
      ''              <td>'', address, ''</td>\<newline>'',
      ''            </tr>\<newline>'',
      ''            <tr>\<newline>'',
      ''              <th>'', stationsLabel, ''</th>\<newline>'',
      ''              <td>'', stations, ''</td>\<newline>'',
      ''            </tr>\<newline>'',
      ''          </table>\<newline>'',
      ''          '', iframeHtml, ''\<newline>'',
      ''        </div>\<newline>'',
      ''      '']\<close>

definition styles :: "string \<Rightarrow> string \<Rightarrow> string \<Rightarrow> string" where
  \<open>styles sel main sub =
     concat
     [''\<newline>'',
      ''      /* SVG */\<newline>'',
      ''      '', sel, '' .cl-svg-title {\<newline>'',
      ''        stroke-width: 0;\<newline>'',
      ''      }\<newline>'',
      ''      '', sel, '' .cl-svg-title-em-text {\<newline>'',
      ''        fill: '', main, ''\<newline>'',
      ''      }\<newline>'',
      ''      '', sel, '' .cl-svg-map-area-line line {\<newline>'',
      ''        stroke: '', main, ''\<newline>'',
      ''      }\<newline>'',
      ''      '', sel, '' .cl-svg-map-main {\<newline>'',
      ''        fill: '', main, ''\<newline>'',
      ''      }\<newline>'',
      ''      '', sel, '' .cl-svg-map-area-name {\<newline>'',
      ''        fill: '', main, ''\<newline>'',
      ''      }\<newline>'',
      ''      /* '', accordionComment, '' */\<newline>'',
      ''      '', sel, '' .cl-details-acd__list {\<newline>'',
      ''        padding: 1.5rem;\<newline>'',
      ''      }\<newline>'',
      ''      '', sel, '' .cl-details-acd__list-item:not(:last-child) {\<newline>'',
      ''        margin-bottom: 1.5rem;\<newline>'',
      ''      }\<newline>'',
      ''      '', sel, '' .cl-details-acd__list-item-header {\<newline>'',
      ''        display: block;\<newline>'',
      ''        padding: 1.5rem 1.2rem;\<newline>'',
      ''        border-radius: 10px;\<newline>'',
      ''        position: relative;\<newline>'',
      ''        color: #111;\<newline>'',
      ''        text-align: center;\<newline>'',
      ''        font-size: 1.4rem;\<newline>'',
      ''      }\<newline>'',
      ''      /* '', accordionColorComment, '' */\<newline>'',
      ''      '', sel, '' .cl-details-acd__list-item-header {\<newline>'',
      ''        background-color: '', sub, ''\<newline>'',
      ''      }\<newline>'',
      ''\<newline>'',
      ''      @media (hover: hover) {\<newline>'',
      ''        '', sel, '' .cl-details-acd__list-item-header:hover {\<newline>'',
      ''          opacity: 0.8;\<newline>'',
      ''          transition: opacity 0.2s;\<newline>'',
      ''        }\<newline>'',
      ''      }\<newline>'',
      ''      '', sel, '' .cl-details-acd__list-item-header::after {\<newline>'',
      ''        width: 1.3rem;\<newline>'',
      ''        height: 1.3rem;\<newline>'',
      ''        content: '', [CHR 0x27], [CHR 0x27], '';\<newline>'',
      ''        mask: url(data:image/svg+xml;base64,PD94bWwgdmVyc2lvbj0iMS4wIiBlbmNvZGluZz0iVVRGLTgiPz4gPHN2ZyBpZD0ibWRpLXBsdXMtbWludXMiIHhtbG5zPSJodHRwOi8vd3d3LnczLm9yZy8yMDAwL3N2ZyIgdmlld0JveD0iMCAwIDUwIDUwIj4gICA8cGF0aCBkPSJNMjEuNDQsMy42M3YxNy44MUgzLjYzdjcuMTJoMTcuODF2MTcuODFoNy4xMnYtMTcuODFoMTcuODF2LTcuMTJoLTE3LjgxVjMuNjNoLTcuMTIiLz4gPC9zdmc+) center / 100% auto no-repeat;\<newline>'',
      ''        background-color: #111;\<newline>'',
      ''        position: absolute;\<newline>'',
      ''        top: 50%;\<newline>'',
      ''        right: 3%;\<newline>'',
      ''        transform: translateY(-50%);\<newline>'',
      ''      }\<newline>'',
      ''      '', sel, '' .cl-details-acd__list-item-header input[type='', [CHR 0x27], ''checkbox'', [CHR 0x27], ''] {\<newline>'',
      ''        display: none;\<newline>'',
      ''      }\<newline>'',
      ''      '', sel, '' .cl-details-acd__list-item-body {\<newline>'',
      ''        height: 0;\<newline>'',
      ''        padding: 0 1rem;\<newline>'',
      ''        overflow: hidden;\<newline>'',
      ''        transition: padding 0.3s;\<newline>'',
      ''      }\<newline>'',
      ''      /* for when opened */\<newline>'',
      ''      '', sel, '' .cl-details-acd__list-item-header:has(input[type='', [CHR 0x27], ''checkbox'', [CHR 0x27], '']:checked) + .cl-details-acd__list-item-body {\<newline>'',
      ''        height: auto;\<newline>'',
      ''        padding: 1.5rem 1rem 0.5rem 1rem;\<newline>'',
      ''        transition: padding 0.3s;\<newline>'',
      ''      }\<newline>'',
      ''      '', sel, '' .cl-details-acd__list-item-header:has(input[type='', [CHR 0x27], ''checkbox'', [CHR 0x27], '']:checked)::after {\<newline>'',
      ''        mask: url(data:image/svg+xml;base64,PD94bWwgdmVyc2lvbj0iMS4wIiBlbmNvZGluZz0iVVRGLTgiPz4gPHN2ZyBpZD0ibWRpLXBsdXMtbWludXMiIHhtbG5zPSJodHRwOi8vd3d3LnczLm9yZy8yMDAwL3N2ZyIgdmlld0JveD0iMCAwIDUwIDUwIj4gICA8cmVjdCB4PSIzLjYzIiB5PSIyMS40NCIgd2lkdGg9IjQyLjc1IiBoZWlnaHQ9IjcuMTIiLz4gPC9zdmc+) center / 100% auto no-repeat;\<newline>'',
      ''      }\<newline>'',
      ''      /* / for when opened */\<newline>'',
      ''      '', sel, '' .cl-details-acd__list-sub-item {\<newline>'',
      ''        margin-bottom: 1.5em;\<newline>'',
      ''      }\<newline>'',
      ''      '', sel, '' .cl-details-acd__list-sub-item-header {\<newline>'',
      ''        padding: 1rem 0;\<newline>'',
      ''        margin-bottom: 1rem;\<newline>'',
      ''        border-top: 1px solid #222;\<newline>'',
      ''        border-bottom: 1px solid #222;\<newline>'',
      ''        text-align: center;\<newline>'',
      ''        font-size: 1.4rem;\<newline>'',
      ''      }\<newline>'',
      ''      '', sel, '' .cl-details-acd__list-sub-item-table {\<newline>'',
      ''        margin-bottom: 1rem;\<newline>'',
      ''        font-size: 1.2rem;\<newline>'',
      ''      }\<newline>'',
      ''      '', sel, '' .cl-details-acd__list-sub-item-table th,\<newline>'',
      ''      '', sel, '' .cl-details-acd__list-sub-item-table td {\<newline>'',
      ''        padding: 0.3rem 0;\<newline>'',
      ''        text-align: left;\<newline>'',
      ''        font-weight: normal;\<newline>'',
      ''        vertical-align: top;\<newline>'',
      ''        white-space: pre-line;\<newline>'',
      ''      }\<newline>'',
      ''      '', sel, '' .cl-details-acd__list-sub-item-table th {\<newline>'',
      ''        width: 20%;\<newline>'',
      ''      }\<newline>'',
      ''      '', sel, '' .cl-details-acd__list-sub-item-iframe {\<newline>'',
      ''        width: 100%;\<newline>'',
      ''        border: none;\<newline>'',
      ''      }\<newline>'',
      ''    '']\<close>

section \<open>createClinicDetailsAccordion\<close>

text \<open>
  \<open>forEach\<close> over an array with a callback that may throw: the first throw ends the
  loop.
\<close>

fun forEach :: "('a \<Rightarrow> error + 'b) \<Rightarrow> 'a list \<Rightarrow> error + 'b list" where
  "forEach f [] = Inr []"
| "forEach f (x # xs) =
     (case f x of
        Inl e \<Rightarrow> Inl e
      | Inr y \<Rightarrow> (case forEach f xs of Inl e \<Rightarrow> Inl e | Inr ys \<Rightarrow> Inr (y # ys)))"

text \<open>
  The callback of the inner loop: the markup of one clinic, inserted at the end of the
  item body \<open>bodyEl\<close>, which is given by whether the element was found. The first
  property read, \<open>clinic.mapUrl\<close>, throws when the clinic is \<open>null\<close>; each interpolation
  may throw; \<open>bodyEl.insertAdjacentHTML\<close> throws when \<open>bodyEl\<close> is \<open>null\<close>.
\<close>

definition clinicEntry :: "'n runtime \<Rightarrow> bool \<Rightarrow> 'n json \<Rightarrow> error + string" where
  "clinicEntry rt bodyEl clinic =
     (if clinic = JNull then Inl (TypeError ''mapUrl'')
      else
        after (if truthy rt (propOf clinic ''mapUrl'')
               then after (textOf rt (propOf clinic ''mapUrl'')) (\<lambda>url. Inr (iframeMarkup url))
               else Inr []) (\<lambda>iframeHtml.
        after (orEmpty rt (propOf clinic ''name'')) (\<lambda>name.
        after (orEmpty rt (propOf clinic ''hours'')) (\<lambda>hours.
        after (orEmpty rt (propOf clinic ''closed'')) (\<lambda>closed.
        after (orEmpty rt (propOf clinic ''address'')) (\<lambda>address.
        after (orEmpty rt (propOf clinic ''stations'')) (\<lambda>stations.
          if bodyEl then Inr (shopHtml name hours closed address stations iframeHtml)
          else Inl (TypeError ''insertAdjacentHTML''))))))))"

text \<open>
  The callback of the outer loop: the item of one area, as the markup assigned to the
  \<open>innerHTML\<close> of the wrapper and the markup of each clinic inserted into the item body,
  the first element of the wrapper that \<open>querySelector\<close> finds for the class of the
  body. \<open>areaData.area\<close> throws when the area is \<open>null\<close>; the interpolation of the area
  may throw; \<open>areaData?.clinics.forEach\<close> throws unless \<open>clinics\<close> is an array. The
  markup starts with the item's \<open>div\<close>, so the wrapper always has a first element child
  to append to the list.
\<close>

definition itemBodySelector :: string where
  "itemBodySelector = ''.cl-details-acd__list-item-body''"

definition areaEntry :: "'n runtime \<Rightarrow> 'n json \<Rightarrow> error + string \<times> string list" where
  "areaEntry rt areaData =
     (if areaData = JNull then Inl (TypeError ''area'')
      else
        after (orEmpty rt (propOf areaData ''area'')) (\<lambda>area.
          let html = areaHtml area;
              bodyEl = fragmentHas rt html itemBodySelector
          in case propOf areaData ''clinics'' of
               Some (JArr clinics) \<Rightarrow>
                 after (forEach (clinicEntry rt bodyEl) clinics) (\<lambda>shops. Inr (html, shops))
             | _ \<Rightarrow> Inl (TypeError ''forEach'')))"

text \<open>
  The accordion is built on elements that are not yet in the document, so a throw
  leaves the document as it was. Only an array has \<open>forEach\<close>.
\<close>

definition createClinicDetailsAccordion :: "'n runtime \<Rightarrow> 'n json \<Rightarrow> error + node" where
  "createClinicDetailsAccordion rt details =
     (case details of
        JArr areas \<Rightarrow>
          (case forEach (areaEntry rt) areas of
             Inl e \<Rightarrow> Inl e
           | Inr items \<Rightarrow> Inr (AccordionList items))
      | _ \<Rightarrow> Inl (TypeError ''forEach''))"

section \<open>createContents and embedStyleTag\<close>

text \<open>
  A step on the page either completes (\<open>None\<close>) or throws (\<open>Some e\<close>); either way the
  page is as the step left it. \<open>andThen\<close> runs the second step only if the first completed.
\<close>

type_synonym step = "world \<Rightarrow> error option \<times> world"

definition andThen :: "step \<Rightarrow> step \<Rightarrow> step" where
  "andThen f g w = (case f w of (None, w') \<Rightarrow> g w' | (Some e, w') \<Rightarrow> (Some e, w'))"

text \<open>
  \<open>el.innerHTML = ''; el.appendChild(n)\<close> on the element a selector gave: a TypeError
  when the element is \<open>null\<close>.
\<close>

definition replaceChildren :: "node list option \<Rightarrow> string \<Rightarrow> node \<Rightarrow> step" where
  "replaceChildren el sel n w =
     (case el of
        None \<Rightarrow> (Some (TypeError ''innerHTML''), w)
      | Some old \<Rightarrow> (None, w\<lparr>slots := (slots w)(sel \<mapsto> [n])\<rparr>))"

definition createTitle :: "'n runtime \<Rightarrow> 'n embedder \<Rightarrow> step" where
  "createTitle rt inst w =
     (if isVisibleTitle inst \<and> titleSvg inst \<noteq> [] then
        (case querySelector rt w (titleSelector (parentSelector inst)) of
           Inl e \<Rightarrow> (Some e, w)
         | Inr titleEl \<Rightarrow>
             if titleSvg inst \<noteq> [] then
               replaceChildren titleEl (titleSelector (parentSelector inst))
                 (SvgRoot (titleSvg inst)) w
             else (None, w))
      else (None, w))"

definition createMap :: "'n runtime \<Rightarrow> 'n embedder \<Rightarrow> step" where
  "createMap rt inst w =
     (if isVisibleMap inst \<and> isVisibleMap inst then
        (case querySelector rt w (mapSelector (parentSelector inst)) of
           Inl e \<Rightarrow> (Some e, w)
         | Inr mapEl \<Rightarrow>
             if mapSvg inst \<noteq> [] then
               replaceChildren mapEl (mapSelector (parentSelector inst))
                 (SvgRoot (mapSvg inst)) w
             else (None, w))
      else (None, w))"

definition createDetails :: "'n runtime \<Rightarrow> 'n embedder \<Rightarrow> step" where
  "createDetails rt inst w =
     (if \<not> isVisibleDetailsAccordion inst then (None, w)
      else
        case lengthPositive rt (clinicDetails inst) of
          Inl e \<Rightarrow> (Some e, w)
        | Inr False \<Rightarrow> (None, w)
        | Inr True \<Rightarrow>
            (case querySelector rt w (detailsSelector (parentSelector inst)) of
               Inl e \<Rightarrow> (Some e, w)
             | Inr detailsAccordionElement \<Rightarrow>
                 (case createClinicDetailsAccordion rt (clinicDetails inst) of
                    Inl e \<Rightarrow> (Some e, w)
                  | Inr detailsAccordionDom \<Rightarrow>
                      replaceChildren detailsAccordionElement
                        (detailsSelector (parentSelector inst)) detailsAccordionDom w)))"

text \<open>The three blocks of \<open>createContents\<close>, in the order of the source.\<close>

definition createContents :: "'n runtime \<Rightarrow> 'n embedder \<Rightarrow> step" where
  "createContents rt inst =
     andThen (createTitle rt inst) (andThen (createMap rt inst) (createDetails rt inst))"

definition embedStyleTag :: "'n embedder \<Rightarrow> world \<Rightarrow> world" where
  "embedStyleTag inst w =
     w\<lparr>headNodes := headNodes w
          @ [StyleElement (styles (parentSelector inst) (mainColor inst) (subColor inst))]\<rparr>"

section \<open>Responses, fetchData and fetchAllWithSetData\<close>

text \<open>
  A response: its status, its Content-Type header (\<open>None\<close> when \<open>headers.get\<close> gives
  \<open>null\<close>), and what \<open>text()\<close> and \<open>json()\<close> settle with (\<open>Inl\<close>: the promise rejects).
  The network answers each URL with a response or rejects the fetch.
\<close>

record 'n response =
  status :: nat
  contentType :: "string option"
  bodyText :: "error + string"
  bodyJson :: "error + 'n json"

type_synonym 'n network = "string \<Rightarrow> error + 'n response"

definition ok :: "'n response \<Rightarrow> bool" where
  "ok res = (200 \<le> status res \<and> status res \<le> 299)"

definition isContentType :: "'n response \<Rightarrow> string \<Rightarrow> bool" where
  "isContentType response type =
     (case contentType response of
        None \<Rightarrow> False
      | Some ct \<Rightarrow>
          if ct = [] then False
          else if type = ''json'' then strIncludes ct ''application/json''
          else if type = ''text'' then strIncludes ct ''text/plain''
          else if type = ''xml'' then
            strIncludes ct ''image/svg+xml'' \<or> strIncludes ct ''application/xml''
          else if type = ''html'' then strIncludes ct ''text/html''
          else False)"

text \<open>
  \<open>fetchData\<close> in two halves, since the caller starts three of them before it awaits
  any: the call of \<open>fetch\<close>, and what the function returns once the fetch has settled
  (\<open>None\<close> for \<open>undefined\<close>, after logging the network error or the status).
\<close>

definition startFetch :: "string \<Rightarrow> world \<Rightarrow> world" where
  "startFetch url w = w\<lparr>requests := requests w @ [url]\<rparr>"

definition logError :: "error \<Rightarrow> world \<Rightarrow> world" where
  "logError e w = w\<lparr>console := console w @ [ErrorLogged e]\<rparr>"

definition settleFetch :: "'n network \<Rightarrow> string \<Rightarrow> world \<Rightarrow> 'n response option \<times> world" where
  "settleFetch net url w =
     (case net url of
        Inl e \<Rightarrow> (None, logError e w)
      | Inr res \<Rightarrow>
          if \<not> ok res then (None, logError (HttpError (status res)) w)
          else (Some res, w))"


definition titleUrl :: string where
  "titleUrl = ''../images/title.svg''"

definition mapUrl :: "string \<Rightarrow> string" where
  "mapUrl ct = ''../images/'' @ ct @ ''/map.svg''"

definition detailsUrl :: "string \<Rightarrow> string" where
  "detailsUrl ct = ''../data/'' @ ct @ ''/clinic-details.json''"

text \<open>
  A promise of the \<open>promises\<close> object: \<open>null\<close> when the section is not visible. The
  three fetches settle in an order the network decides; the model logs their errors in
  the order title, map, details.
\<close>

definition awaitPromise :: "'n network \<Rightarrow> bool \<Rightarrow> string \<Rightarrow> world \<Rightarrow> 'n response option \<times> world" where
  "awaitPromise net visible url w = (if visible then settleFetch net url w else (None, w))"

text \<open>The three commits to the state; a rejected \<open>text()\<close> or \<open>json()\<close> throws.\<close>

definition setTitleSvg :: "'n response option \<Rightarrow> 'n embedder \<Rightarrow> error + 'n embedder" where
  "setTitleSvg resTitle inst =
     (case resTitle of
        None \<Rightarrow> Inr inst
      | Some res \<Rightarrow>
          if isContentType res ''xml'' then
            (case bodyText res of Inl e \<Rightarrow> Inl e | Inr t \<Rightarrow> Inr (inst\<lparr>titleSvg := t\<rparr>))
          else Inr inst)"

definition setMapSvg :: "'n response option \<Rightarrow> 'n embedder \<Rightarrow> error + 'n embedder" where
  "setMapSvg resMap inst =
     (case resMap of
        None \<Rightarrow> Inr inst
      | Some res \<Rightarrow>
          if isContentType res ''xml'' then
            (case bodyText res of Inl e \<Rightarrow> Inl e | Inr t \<Rightarrow> Inr (inst\<lparr>mapSvg := t\<rparr>))
          else Inr inst)"

definition setClinicDetails :: "'n response option \<Rightarrow> 'n embedder \<Rightarrow> error + 'n embedder" where
  "setClinicDetails resDetails inst =
     (case resDetails of
        None \<Rightarrow> Inr inst
      | Some res \<Rightarrow>
          if isContentType res ''json'' then
            (case bodyJson res of Inl e \<Rightarrow> Inl e | Inr v \<Rightarrow> Inr (inst\<lparr>clinicDetails := v\<rparr>))
          else Inr inst)"

text \<open>
  \<open>fetchAllWithSetData\<close> in its three parts. First the fetches of the visible sections
  are started, in the order title, map, details, and the promises are logged.
\<close>

definition startFetches :: "'n embedder \<Rightarrow> world \<Rightarrow> world" where
  "startFetches inst w =
     (let w1 = (if isVisibleTitle inst then startFetch titleUrl w else w);
          w2 = (if isVisibleMap inst then startFetch (mapUrl (clinicType inst)) w1 else w1);
          w3 = (if isVisibleDetailsAccordion inst
                then startFetch (detailsUrl (clinicType inst)) w2 else w2)
      in w3\<lparr>console := console w3
              @ [PromisesLogged (isVisibleTitle inst) (isVisibleMap inst)
                   (isVisibleDetailsAccordion inst)]\<rparr>)"

text \<open>Then \<open>Promise.all\<close> waits for the three promises.\<close>

definition awaitAll ::
  "'n network \<Rightarrow> 'n embedder \<Rightarrow> world
     \<Rightarrow> ('n response option \<times> 'n response option \<times> 'n response option) \<times> world" where
  "awaitAll net inst w =
     (let (resTitle, w1) = awaitPromise net (isVisibleTitle inst) titleUrl w;
          (resMap, w2) = awaitPromise net (isVisibleMap inst) (mapUrl (clinicType inst)) w1;
          (resDetails, w3) =
            awaitPromise net (isVisibleDetailsAccordion inst) (detailsUrl (clinicType inst)) w2
      in ((resTitle, resMap, resDetails), w3))"

text \<open>
  Then the state is set, title first; a throw leaves the state as set so far. The
  result of \<open>fetchAllWithSetData\<close> is the error thrown, if any, with the state and the
  page as they are then.
\<close>

definition setData ::
  "'n response option \<Rightarrow> 'n response option \<Rightarrow> 'n response option \<Rightarrow> 'n embedder
     \<Rightarrow> error option \<times> 'n embedder" where
  "setData resTitle resMap resDetails inst =
     (case setTitleSvg resTitle inst of
        Inl e \<Rightarrow> (Some e, inst)
      | Inr inst1 \<Rightarrow>
          (case setMapSvg resMap inst1 of
             Inl e \<Rightarrow> (Some e, inst1)
           | Inr inst2 \<Rightarrow>
               (case setClinicDetails resDetails inst2 of
                  Inl e \<Rightarrow> (Some e, inst2)
                | Inr inst3 \<Rightarrow> (None, inst3))))"

definition fetchAllWithSetData ::
  "'n network \<Rightarrow> 'n embedder \<Rightarrow> world \<Rightarrow> error option \<times> 'n embedder \<times> world" where
  "fetchAllWithSetData net inst w =
     (let ((resTitle, resMap, resDetails), w1) = awaitAll net inst (startFetches inst w);
          (thrown, inst1) = setData resTitle resMap resDetails inst
      in (thrown, inst1, w1))"

section \<open>init\<close>

text \<open>
  The body of the \<open>try\<close> block, then \<open>init\<close> with its \<open>catch\<close>, which logs the error. The
  promise \<open>init\<close> returns is fulfilled or rejected; the state and the page come with it.
\<close>

datatype settlement = Fulfilled | Rejected error

definition initBody ::
  "'n runtime \<Rightarrow> 'n network \<Rightarrow> 'n embedder \<Rightarrow> world \<Rightarrow> error option \<times> 'n embedder \<times> world" where
  "initBody rt net inst w =
     (case fetchAllWithSetData net inst w of
        (Some e, inst1, w1) \<Rightarrow> (Some e, inst1, w1)
      | (None, inst1, w1) \<Rightarrow>
          (case createContents rt inst1 w1 of
             (Some e, w2) \<Rightarrow> (Some e, inst1, w2)
           | (None, w2) \<Rightarrow> (None, inst1, embedStyleTag inst1 w2)))"

definition init ::
  "'n runtime \<Rightarrow> 'n network \<Rightarrow> 'n embedder \<Rightarrow> world \<Rightarrow> settlement \<times> 'n embedder \<times> world" where
  "init rt net inst w =
     (case initBody rt net inst w of
        (None, inst1, w1) \<Rightarrow> (Fulfilled, inst1, w1)
      | (Some e, inst1, w1) \<Rightarrow> (Fulfilled, inst1, logError e w1))"


section \<open>The height reporter\<close>









section \<open>What the fetch phase amounts to\<close>

text \<open>
  Read off \<open>fetchData\<close>: the response a section's promise resolves to, and the errors
  logged on the way; the URLs \<open>fetchAllWithSetData\<close> requests; and the fields of an
  instance that \<open>init\<close> never writes.
\<close>

definition delivered :: "'n network \<Rightarrow> bool \<Rightarrow> string \<Rightarrow> 'n response option" where
  "delivered net visible url =
     (if visible then
        (case net url of Inl e \<Rightarrow> None | Inr res \<Rightarrow> if ok res then Some res else None)
      else None)"

definition fetchErrors :: "'n network \<Rightarrow> bool \<Rightarrow> string \<Rightarrow> entry list" where
  "fetchErrors net visible url =
     (if visible then
        (case net url of
           Inl e \<Rightarrow> [ErrorLogged e]
         | Inr res \<Rightarrow> if ok res then [] else [ErrorLogged (HttpError (status res))])
      else [])"

definition requested :: "'n embedder \<Rightarrow> string list" where
  "requested inst =
     (if isVisibleTitle inst then [titleUrl] else [])
     @ (if isVisibleMap inst then [mapUrl (clinicType inst)] else [])
     @ (if isVisibleDetailsAccordion inst then [detailsUrl (clinicType inst)] else [])"

definition fetched :: "'n network \<Rightarrow> 'n embedder \<Rightarrow> world \<Rightarrow> world" where
  "fetched net inst w =
     w\<lparr>requests := requests w @ requested inst,
       console := console w
         @ [PromisesLogged (isVisibleTitle inst) (isVisibleMap inst)
              (isVisibleDetailsAccordion inst)]
         @ fetchErrors net (isVisibleTitle inst) titleUrl
         @ fetchErrors net (isVisibleMap inst) (mapUrl (clinicType inst))
         @ fetchErrors net (isVisibleDetailsAccordion inst) (detailsUrl (clinicType inst))\<rparr>"

definition stored :: "'n network \<Rightarrow> 'n embedder \<Rightarrow> error option \<times> 'n embedder" where
  "stored net inst =
     setData (delivered net (isVisibleTitle inst) titleUrl)
       (delivered net (isVisibleMap inst) (mapUrl (clinicType inst)))
       (delivered net (isVisibleDetailsAccordion inst) (detailsUrl (clinicType inst))) inst"

definition sameSetup :: "'n embedder \<Rightarrow> 'n embedder \<Rightarrow> bool" where
  "sameSetup a b =
     (parentSelector a = parentSelector b \<and> clinicType a = clinicType b
      \<and> mainColor a = mainColor b \<and> subColor a = subColor b
      \<and> isVisibleTitle a = isVisibleTitle b \<and> isVisibleMap a = isVisibleMap b
      \<and> isVisibleDetailsAccordion a = isVisibleDetailsAccordion b)"

section \<open>Values for the examples\<close>

text \<open>
  A runtime that accepts every selector, with integer numbers; no example converts a
  text to a number or prints one. Of its parser the examples need one fact: in the item
  markup of the area \<open>East\<close> it finds the item body. The runtime answers so for that
  markup and finds no element in any other. A page without content.
\<close>

definition exampleRuntime :: "int runtime" where
  "exampleRuntime =
     \<lparr>selectorOk = (\<lambda>sel. True),
      fragmentHas = (\<lambda>markup sel. markup = areaHtml ''East'' \<and> sel = itemBodySelector),
      numberText = (\<lambda>n. []),
      numberTruthy = (\<lambda>n. n \<noteq> 0),
      numberPositive = (\<lambda>n. 0 < n),
      textPositive = (\<lambda>s. False)\<rparr>"

definition emptyWorld :: world where
  "emptyWorld = \<lparr>slots = Map.empty, headNodes = [], requests = [], console = []\<rparr>"


text \<open>
  The demo page's first widget: the three markers under \<open>#clinic-list-1\<close>, each with a
  placeholder, and the instance \<open>embedClinicMap\<close> builds there from a configuration with
  the given colours.
\<close>

definition hostWorld :: world where
  "hostWorld =
     \<lparr>slots = [titleSelector ''#clinic-list-1'' \<mapsto> [HostNode ''title''],
               mapSelector ''#clinic-list-1'' \<mapsto> [HostNode ''map''],
               detailsSelector ''#clinic-list-1'' \<mapsto> [HostNode ''details'']],
      headNodes = [], requests = [], console = []\<rparr>"

definition demoConfig :: "colors option \<Rightarrow> config" where
  "demoConfig c =
     \<lparr>parentSelectorOpt = Some ''#clinic-list-1'', clinicTypeOpt = Some ''juno'',
      colorsOpt = c\<rparr>"

definition demoEmbedder :: "string \<Rightarrow> string \<Rightarrow> int embedder" where
  "demoEmbedder main sub =
     \<lparr>parentSelector = ''#clinic-list-1'', clinicType = ''juno'',
      mainColor = main, subColor = sub,
      titleSvg = [], mapSvg = [], clinicDetails = JObj [],
      isVisibleTitle = True, isVisibleMap = True, isVisibleDetailsAccordion = True\<rparr>"

text \<open>
  Responses with the status 200: an SVG text, and a JSON body that parses to a value or
  fails to parse. A network that answers the three URLs of the clinic type \<open>juno\<close> and
  rejects every other fetch.
\<close>

definition svgResponse :: "string \<Rightarrow> int response" where
  "svgResponse t =
     \<lparr>status = 200, contentType = Some ''image/svg+xml'', bodyText = Inr t,
      bodyJson = Inl (SyntaxError ''JSON'')\<rparr>"

definition jsonResponse :: "string \<Rightarrow> error + int json \<Rightarrow> int response" where
  "jsonResponse ct v =
     \<lparr>status = 200, contentType = Some ct, bodyText = Inl (BodyError ''not read''),
      bodyJson = v\<rparr>"

definition notFound :: "int response" where
  "notFound =
     \<lparr>status = 404, contentType = Some ''text/html'', bodyText = Inr ''Not Found'',
      bodyJson = Inl (SyntaxError ''JSON'')\<rparr>"

definition exampleNetwork ::
  "error + int response \<Rightarrow> error + int response \<Rightarrow> error + int response \<Rightarrow> int network" where
  "exampleNetwork t m d url =
     (if url = titleUrl then t
      else if url = mapUrl ''juno'' then m
      else if url = detailsUrl ''juno'' then d
      else Inl (NetworkError ''Failed to fetch''))"

definition offline :: "int network" where
  "offline url = Inl (NetworkError ''Failed to fetch'')"

text \<open>A page with the details marker only.\<close>

definition detailsOnlyWorld :: world where
  "detailsOnlyWorld =
     \<lparr>slots = [detailsSelector ''#clinic-list-1'' \<mapsto> [HostNode ''details'']],
      headNodes = [], requests = [], console = []\<rparr>"

text \<open>
  The details \<open>[{"area":"East","clinics":[{"name":"Clinic A","hours":"9-5","closed":"Sun"}]}]\<close>.
\<close>

definition eastDetails :: "'n json" where
  "eastDetails =
     JArr [JObj [(''area'', JStr ''East''),
                 (''clinics'',
                  JArr [JObj [(''name'', JStr ''Clinic A''), (''hours'', JStr ''9-5''),
                              (''closed'', JStr ''Sun'')]])]]"

text \<open>A response with the status 200 and no Content-Type header.\<close>

definition headerless :: "int response" where
  "headerless =
     \<lparr>status = 200, contentType = None, bodyText = Inr ''<svg></svg>'',
      bodyJson = Inr eastDetails\<rparr>"

subsection \<open>Outcomes of one fetch\<close>





section \<open>The phases of init\<close>

text \<open>
  The fetch phase written out, what the render phase leaves alone, and \<open>init\<close> in terms
  of both.
\<close>

lemma awaitPromise_eq:
  "awaitPromise net v url w
     = (delivered net v url, w\<lparr>console := console w @ fetchErrors net v url\<rparr>)"
  by (simp add: awaitPromise_def settleFetch_def logError_def delivered_def fetchErrors_def
      split: sum.splits)

lemma startFetches_eq:
  "startFetches inst w =
     w\<lparr>requests := requests w @ requested inst,
       console := console w
         @ [PromisesLogged (isVisibleTitle inst) (isVisibleMap inst)
              (isVisibleDetailsAccordion inst)]\<rparr>"
  by (simp add: startFetches_def requested_def startFetch_def)

lemma awaitAll_eq:
  "awaitAll net inst w =
     ((delivered net (isVisibleTitle inst) titleUrl,
       delivered net (isVisibleMap inst) (mapUrl (clinicType inst)),
       delivered net (isVisibleDetailsAccordion inst) (detailsUrl (clinicType inst))),
      w\<lparr>console := console w
         @ fetchErrors net (isVisibleTitle inst) titleUrl
         @ fetchErrors net (isVisibleMap inst) (mapUrl (clinicType inst))
         @ fetchErrors net (isVisibleDetailsAccordion inst) (detailsUrl (clinicType inst))\<rparr>)"
  by (simp add: awaitAll_def awaitPromise_eq)

lemma fetchAllWithSetData_eq:
  "fetchAllWithSetData net inst w =
     (fst (stored net inst), snd (stored net inst), fetched net inst w)"
  by (simp add: fetchAllWithSetData_def awaitAll_eq startFetches_eq fetched_def stored_def
      split: prod.splits)

lemma setTitleSvg_setup: "setTitleSvg r inst = Inr inst' \<Longrightarrow> sameSetup inst' inst"
  by (auto simp: setTitleSvg_def sameSetup_def split: option.splits if_splits sum.splits)

lemma setMapSvg_setup: "setMapSvg r inst = Inr inst' \<Longrightarrow> sameSetup inst' inst"
  by (auto simp: setMapSvg_def sameSetup_def split: option.splits if_splits sum.splits)

lemma setClinicDetails_setup: "setClinicDetails r inst = Inr inst' \<Longrightarrow> sameSetup inst' inst"
  by (auto simp: setClinicDetails_def sameSetup_def split: option.splits if_splits sum.splits)

lemma sameSetup_trans: "sameSetup a b \<Longrightarrow> sameSetup b c \<Longrightarrow> sameSetup a c"
  by (simp add: sameSetup_def)

lemma sameSetup_refl: "sameSetup a a"
  by (simp add: sameSetup_def)

lemma setData_setup: "sameSetup (snd (setData rT rM rD inst)) inst"
proof (cases "setTitleSvg rT inst")
  case (Inl e)
  then show ?thesis by (simp add: setData_def sameSetup_refl)
next
  case T: (Inr i1)
  show ?thesis
  proof (cases "setMapSvg rM i1")
    case (Inl e)
    then show ?thesis using T by (simp add: setData_def setTitleSvg_setup)
  next
    case M: (Inr i2)
    have s2: "sameSetup i2 inst"
      using sameSetup_trans [OF setMapSvg_setup [OF M] setTitleSvg_setup [OF T]] .
    show ?thesis
    proof (cases "setClinicDetails rD i2")
      case (Inl e)
      then show ?thesis using T M s2 by (simp add: setData_def)
    next
      case (Inr i3)
      then show ?thesis
        using T M sameSetup_trans [OF setClinicDetails_setup [OF Inr] s2]
        by (simp add: setData_def)
    qed
  qed
qed


lemma strIncludes_self: "strIncludes (p @ ys) p"
  by (cases p) (simp_all, cases ys, simp_all)

lemma strIncludes_append2: "strIncludes ys p \<Longrightarrow> strIncludes (xs @ ys) p"
  by (induction xs) (auto)

lemma strIncludes_here: "strIncludes (a @ p @ r) p"
  by (rule strIncludes_append2) (rule strIncludes_self)

lemma styles_fill: "strIncludes (styles sel main sub) (''fill: '' @ main)"
proof -
  have eq: "''        fill: '' @ main @ rest = ''        '' @ (''fill: '' @ main) @ rest" for rest
    by simp
  show ?thesis
    unfolding styles_def concat.simps
    apply (subst eq)
    apply (rule strIncludes_here | rule strIncludes_append2)+
    done
qed

lemma styles_background: "strIncludes (styles sel main sub) (''background-color: '' @ sub)"
proof -
  have eq: "''        background-color: '' @ sub @ rest
              = ''        '' @ (''background-color: '' @ sub) @ rest" for rest
    by simp
  show ?thesis
    unfolding styles_def concat.simps
    apply (subst eq)
    apply (rule strIncludes_here | rule strIncludes_append2)+
    done
qed

lemma replaceChildren_frame:
  "replaceChildren el sel n w = (r, w') \<Longrightarrow>
     headNodes w' = headNodes w \<and> requests w' = requests w \<and> console w' = console w
     \<and> (\<forall>s. s \<noteq> sel \<longrightarrow> slots w' s = slots w s)"
  by (auto simp: replaceChildren_def split: option.splits)

lemma createTitle_frame:
  "createTitle rt inst w = (r, w') \<Longrightarrow>
     headNodes w' = headNodes w \<and> requests w' = requests w \<and> console w' = console w
     \<and> (\<forall>s. s \<noteq> titleSelector (parentSelector inst) \<longrightarrow> slots w' s = slots w s)"
  by (auto simp: createTitle_def split: if_splits sum.splits dest: replaceChildren_frame)

lemma createMap_frame:
  "createMap rt inst w = (r, w') \<Longrightarrow>
     headNodes w' = headNodes w \<and> requests w' = requests w \<and> console w' = console w
     \<and> (\<forall>s. s \<noteq> mapSelector (parentSelector inst) \<longrightarrow> slots w' s = slots w s)"
  by (auto simp: createMap_def split: if_splits sum.splits dest: replaceChildren_frame)

lemma createDetails_frame:
  "createDetails rt inst w = (r, w') \<Longrightarrow>
     headNodes w' = headNodes w \<and> requests w' = requests w \<and> console w' = console w
     \<and> (\<forall>s. s \<noteq> detailsSelector (parentSelector inst) \<longrightarrow> slots w' s = slots w s)"
  by (auto simp: createDetails_def split: if_splits sum.splits bool.splits
      dest: replaceChildren_frame)

lemma createContents_cases:
  obtains w1 e where "createTitle rt inst w = (Some e, w1)"
      and "createContents rt inst w = (Some e, w1)"
  | w1 w2 e where "createTitle rt inst w = (None, w1)" and "createMap rt inst w1 = (Some e, w2)"
      and "createContents rt inst w = (Some e, w2)"
  | w1 w2 where "createTitle rt inst w = (None, w1)" and "createMap rt inst w1 = (None, w2)"
      and "createContents rt inst w = createDetails rt inst w2"
proof (cases "createTitle rt inst w")
  case (Pair r1 w1)
  show ?thesis
  proof (cases r1)
    case (Some e)
    with Pair that(1) show ?thesis by (simp add: createContents_def andThen_def)
  next
    case None
    show ?thesis
    proof (cases "createMap rt inst w1")
      case M: (Pair r2 w2)
      show ?thesis
      proof (cases r2)
        case (Some e)
        with Pair None M that(2) show ?thesis by (simp add: createContents_def andThen_def)
      next
        case N2: None
        with Pair None M that(3) show ?thesis by (simp add: createContents_def andThen_def)
      qed
    qed
  qed
qed

lemma createContents_frame:
  assumes "createContents rt inst w = (r, w')"
  shows "headNodes w' = headNodes w \<and> requests w' = requests w \<and> console w' = console w"
proof (cases rule: createContents_cases [of rt inst w])
  case (1 w1 e)
  with assms createTitle_frame [OF 1(1)] show ?thesis by simp
next
  case (2 w1 w2 e)
  with assms createTitle_frame [OF 2(1)] createMap_frame [OF 2(2)] show ?thesis by simp
next
  case (3 w1 w2)
  with assms have "createDetails rt inst w2 = (r, w')" by simp
  from createDetails_frame [OF this] createTitle_frame [OF 3(1)] createMap_frame [OF 3(2)]
  show ?thesis by simp
qed

lemma stored_setup: "sameSetup (snd (stored net inst)) inst"
  by (simp add: stored_def setData_setup)

lemma initBody_eq:
  "initBody rt net inst w =
     (case fst (stored net inst) of
        Some e \<Rightarrow> (Some e, snd (stored net inst), fetched net inst w)
      | None \<Rightarrow>
          (case createContents rt (snd (stored net inst)) (fetched net inst w) of
             (Some e, w2) \<Rightarrow> (Some e, snd (stored net inst), w2)
           | (None, w2) \<Rightarrow>
               (None, snd (stored net inst), embedStyleTag (snd (stored net inst)) w2)))"
  by (cases "fst (stored net inst)") (simp_all add: initBody_def fetchAllWithSetData_eq)


lemma initBody_head:
  "headNodes (snd (snd (initBody rt net inst w))) =
     headNodes w @ (if fst (initBody rt net inst w) = None
        then [StyleElement (styles (parentSelector inst) (mainColor inst) (subColor inst))]
        else [])"
proof -
  obtain r2 w2 where cc:
    "createContents rt (snd (stored net inst)) (fetched net inst w) = (r2, w2)"
    by (cases "createContents rt (snd (stored net inst)) (fetched net inst w)")
  have h2: "headNodes w2 = headNodes w"
    using createContents_frame [OF cc] by (simp add: fetched_def)
  show ?thesis
    using cc h2 stored_setup [of net inst]
    by (cases "fst (stored net inst)"; cases r2)
       (simp_all add: initBody_eq embedStyleTag_def fetched_def sameSetup_def)
qed

lemma init_eq:
  "init rt net inst w =
     (Fulfilled, fst (snd (initBody rt net inst w)),
      (case fst (initBody rt net inst w) of
         None \<Rightarrow> snd (snd (initBody rt net inst w))
       | Some e \<Rightarrow> logError e (snd (snd (initBody rt net inst w)))))"
  by (simp add: init_def split: prod.splits option.splits)


lemmas example_defs =
  exampleRuntime_def hostWorld_def demoConfig_def demoEmbedder_def svgResponse_def
  jsonResponse_def notFound_def exampleNetwork_def offline_def emptyWorld_def
  titleUrl_def mapUrl_def detailsUrl_def titleSelector_def mapSelector_def detailsSelector_def


lemma offline_stored: "stored offline inst = (None, inst)"
  by (simp add: stored_def delivered_def offline_def setData_def setTitleSvg_def setMapSvg_def
      setClinicDetails_def)

lemma offline_body: "fst (initBody exampleRuntime offline (demoEmbedder m s) w) = None"
  by (simp add: initBody_eq offline_stored createContents_def andThen_def createTitle_def
      createMap_def createDetails_def querySelector_def demoEmbedder_def exampleRuntime_def
      split: prod.splits)



lemma demo_construction_colors:
  "embedClinicMap exampleRuntime hostWorld (demoConfig (Some c))
     = Inr (demoEmbedder (case mainColorOpt c of None \<Rightarrow> ''#000'' | Some m \<Rightarrow> m)
                         (case subColorOpt c of None \<Rightarrow> ''#fff'' | Some s \<Rightarrow> s))"
proof -
  have t: "trim ''#clinic-list-1'' = ''#clinic-list-1''" by code_simp
  show ?thesis
    by (simp add: embedClinicMap_def querySelector_def startsWith_def t falsy_def state_def
      mergedColors_def defaultColors_def noColors_def example_defs split: option.splits)
qed

lemma embedClinicMap_colors:
  assumes "embedClinicMap rt w cfg = Inr inst"
  shows "mainColor inst =
           (case colorsOpt cfg of
              None \<Rightarrow> ''#000''
            | Some c \<Rightarrow> (case mainColorOpt c of None \<Rightarrow> ''#000'' | Some m \<Rightarrow> m))"
    and "subColor inst =
           (case colorsOpt cfg of
              None \<Rightarrow> ''#fff''
            | Some c \<Rightarrow> (case subColorOpt c of None \<Rightarrow> ''#fff'' | Some s \<Rightarrow> s))"
  using assms
  by (auto simp: embedClinicMap_def state_def mergedColors_def defaultColors_def noColors_def
      split: if_splits option.splits sum.splits)

lemma embedClinicMap_ignores_colors:
  "(embedClinicMap rt w (cfg\<lparr>colorsOpt := c\<rparr>) = Inl e) = (embedClinicMap rt w cfg = Inl e)"
  by (auto simp: embedClinicMap_def split: if_splits option.splits sum.splits)

lemma initBody_requests:
  "requests (snd (snd (initBody rt net inst w))) = requests w @ requested inst"
proof -
  obtain r2 w2 where cc:
    "createContents rt (snd (stored net inst)) (fetched net inst w) = (r2, w2)"
    by (cases "createContents rt (snd (stored net inst)) (fetched net inst w)")
  have "requests w2 = requests w @ requested inst"
    using createContents_frame [OF cc] by (simp add: fetched_def)
  then show ?thesis
    using cc
    by (cases "fst (stored net inst)"; cases r2)
       (simp_all add: initBody_eq embedStyleTag_def fetched_def)
qed


lemma embedClinicMap_flags:
  assumes "embedClinicMap rt w cfg = Inr inst"
  shows "isVisibleTitle inst = (slots w (titleSelector (parentSelector inst)) \<noteq> None)
       \<and> isVisibleMap inst = (slots w (mapSelector (parentSelector inst)) \<noteq> None)
       \<and> isVisibleDetailsAccordion inst
           = (slots w (detailsSelector (parentSelector inst)) \<noteq> None)"
  using assms
  by (auto simp: embedClinicMap_def state_def querySelector_def
      split: if_splits option.splits sum.splits)

lemma embedClinicMap_config:
  assumes "embedClinicMap rt w cfg = Inr inst"
  shows "parentSelectorOpt cfg = Some (parentSelector inst)
       \<and> clinicTypeOpt cfg = Some (clinicType inst)"
  using assms
  by (auto simp: embedClinicMap_def state_def querySelector_def
      split: if_splits option.splits sum.splits)

lemma no_iframe: "\<not> strIncludes (shopHtml ''Clinic A'' ''9-5'' ''Sun'' [] [] []) ''<iframe''"
  by code_simp

lemma east_label: "strIncludes (areaHtml ''East'') (''East'' @ areaWord)"
proof -
  have eq: "''            '' @ ''East'' @ areaWord @ rest
              = ''            '' @ (''East'' @ areaWord) @ rest" for rest
    by simp
  show ?thesis
    unfolding areaHtml_def concat.simps
    apply (subst eq)
    apply (rule strIncludes_here | rule strIncludes_append2)+
    done
qed

lemma east_item:
  \<open>areaHtml ''East'' =
     concat
      [''\<newline>'',
       ''        <div class="cl-details-acd__list-item">\<newline>'',
       ''          <label class="cl-details-acd__list-item-header">\<newline>'',
       ''            <input type="checkbox">\<newline>'',
       ''            East'',
       [CHR 0xE3, CHR 0x82, CHR 0xA8, CHR 0xE3, CHR 0x83, CHR 0xAA, CHR 0xE3, CHR 0x82, CHR 0xA2],
       ''\<newline>'',
       ''          </label>\<newline>'',
       ''          <div class="cl-details-acd__list-item-body"></div>\<newline>'',
       ''        </div>\<newline>'',
       ''      '']\<close>
  by (simp add: areaHtml_def areaWord_def)

lemma east_shop:
  \<open>shopHtml ''Clinic A'' ''9-5'' ''Sun'' [] [] [] =
     concat
      [''\<newline>'',
       ''        <div class="cl-details-acd__list-sub-item">\<newline>'',
       ''          <div class="cl-details-acd__list-sub-item-header">Clinic A</div>\<newline>'',
       ''          <table class="cl-details-acd__list-sub-item-table">\<newline>'',
       ''            <tr>\<newline>'',
       ''              <th>'',
       [CHR 0xE8, CHR 0xA8, CHR 0xBA, CHR 0xE7, CHR 0x99, CHR 0x82, CHR 0xE6, CHR 0x99, CHR 0x82, CHR 0xE9, CHR 0x96, CHR 0x93],
       ''</th>\<newline>'',
       ''              <td>9-5</td>\<newline>'',
       ''            </tr>\<newline>'',
       ''            <tr>\<newline>'',
       ''              <th>'',
       [CHR 0xE4, CHR 0xBC, CHR 0x91, CHR 0xE8, CHR 0xA8, CHR 0xBA, CHR 0xE6, CHR 0x97, CHR 0xA5],
       ''</th>\<newline>'',
       ''              <td>Sun</td>\<newline>'',
       ''            </tr>\<newline>'',
       ''            <tr>\<newline>'',
       ''              <th>'',
       [CHR 0xE4, CHR 0xBD, CHR 0x8F, CHR 0xE6, CHR 0x89, CHR 0x80],
       ''</th>\<newline>'',
       ''              <td></td>\<newline>'',
       ''            </tr>\<newline>'',
       ''            <tr>\<newline>'',
       ''              <th>'',
       [CHR 0xE6, CHR 0x9C, CHR 0x80, CHR 0xE5, CHR 0xAF, CHR 0x84, CHR 0xE9, CHR 0xA7, CHR 0x85],
       ''</th>\<newline>'',
       ''              <td></td>\<newline>'',
       ''            </tr>\<newline>'',
       ''          </table>\<newline>'',
       ''          \<newline>'',
       ''        </div>\<newline>'',
       ''      '']\<close>
  by (simp add: shopHtml_def hoursLabel_def closedLabel_def addressLabel_def stationsLabel_def)

lemma east_accordion:
  "fragmentHas rt (areaHtml ''East'') itemBodySelector \<Longrightarrow>
   createClinicDetailsAccordion rt eastDetails
     = Inr (AccordionList [(areaHtml ''East'', [shopHtml ''Clinic A'' ''9-5'' ''Sun'' [] [] []])])"
  by (simp add: createClinicDetailsAccordion_def eastDetails_def areaEntry_def clinicEntry_def
      after_def)

lemma example_finds_body: "fragmentHas exampleRuntime (areaHtml ''East'') itemBodySelector"
  by (simp add: exampleRuntime_def)

lemma forEach_throws:
  "a \<in> set xs \<Longrightarrow> f a = Inl e \<Longrightarrow> \<exists>e'. forEach f xs = Inl e'"
  by (induction xs) (auto split: sum.splits)

lemma areaEntry_without_clinics:
  "(\<forall>cs. propOf a ''clinics'' \<noteq> Some (JArr cs)) \<Longrightarrow> \<exists>e. areaEntry rt a = Inl e"
  by (auto simp: areaEntry_def after_def Let_def split: sum.splits option.splits json.splits)

lemma createDetails_throw_keeps:
  "createClinicDetailsAccordion rt (clinicDetails inst) = Inl e \<Longrightarrow>
     snd (createDetails rt inst w) = w"
  by (simp add: createDetails_def split: sum.splits bool.splits)

lemma selectors_differ:
  "titleSelector ps \<noteq> detailsSelector ps" "mapSelector ps \<noteq> detailsSelector ps"
  "titleSelector ps \<noteq> mapSelector ps"
  by (simp_all add: titleSelector_def mapSelector_def detailsSelector_def)

lemma setTitleSvg_others:
  "setTitleSvg r i = Inr i' \<Longrightarrow> mapSvg i' = mapSvg i \<and> clinicDetails i' = clinicDetails i"
  by (auto simp: setTitleSvg_def split: option.splits if_splits sum.splits)

lemma setMapSvg_others:
  "setMapSvg r i = Inr i' \<Longrightarrow> titleSvg i' = titleSvg i \<and> clinicDetails i' = clinicDetails i"
  by (auto simp: setMapSvg_def split: option.splits if_splits sum.splits)

lemma setClinicDetails_others:
  "setClinicDetails r i = Inr i' \<Longrightarrow> titleSvg i' = titleSvg i \<and> mapSvg i' = mapSvg i"
  by (auto simp: setClinicDetails_def split: option.splits if_splits sum.splits)

lemma setTitleSvg_skip:
  "(\<forall>res. r = Some res \<longrightarrow> \<not> isContentType res ''xml'') \<Longrightarrow> setTitleSvg r i = Inr i"
  by (auto simp: setTitleSvg_def split: option.splits)

lemma setMapSvg_skip:
  "(\<forall>res. r = Some res \<longrightarrow> \<not> isContentType res ''xml'') \<Longrightarrow> setMapSvg r i = Inr i"
  by (auto simp: setMapSvg_def split: option.splits)

lemma setClinicDetails_skip:
  "(\<forall>res. r = Some res \<longrightarrow> \<not> isContentType res ''json'') \<Longrightarrow> setClinicDetails r i = Inr i"
  by (auto simp: setClinicDetails_def split: option.splits)

lemma setData_title_skip:
  "(\<forall>res. rT = Some res \<longrightarrow> \<not> isContentType res ''xml'') \<Longrightarrow>
     titleSvg (snd (setData rT rM rD i)) = titleSvg i"
  by (auto simp: setData_def setTitleSvg_skip split: sum.splits
      dest!: setMapSvg_others setClinicDetails_others)

lemma setData_map_skip:
  "(\<forall>res. rM = Some res \<longrightarrow> \<not> isContentType res ''xml'') \<Longrightarrow>
     mapSvg (snd (setData rT rM rD i)) = mapSvg i"
  by (auto simp: setData_def setMapSvg_skip split: sum.splits
      dest!: setTitleSvg_others setClinicDetails_others)

lemma setData_details_skip:
  "(\<forall>res. rD = Some res \<longrightarrow> \<not> isContentType res ''json'') \<Longrightarrow>
     clinicDetails (snd (setData rT rM rD i)) = clinicDetails i"
  by (auto simp: setData_def setClinicDetails_skip split: sum.splits
      dest!: setTitleSvg_others setMapSvg_others)

lemma delivered_cases:
  "delivered net v url = Some res \<Longrightarrow> net url = Inr res \<and> ok res \<and> v"
  by (auto simp: delivered_def split: if_splits sum.splits)

lemma init_state: "fst (snd (init rt net inst w)) = snd (stored net inst)"
  by (simp add: init_eq initBody_eq split: option.splits prod.splits)

lemma init_slots:
  "slots (snd (snd (init rt net inst w))) =
     (case fst (stored net inst) of
        Some e \<Rightarrow> slots w
      | None \<Rightarrow> slots (snd (createContents rt (snd (stored net inst)) (fetched net inst w))))"
  by (simp add: init_eq initBody_eq logError_def embedStyleTag_def fetched_def
      split: option.splits prod.splits)

lemma createTitle_skip: "titleSvg i = [] \<Longrightarrow> createTitle rt i w = (None, w)"
  by (simp add: createTitle_def)

lemma createMap_skip: "mapSvg i = [] \<Longrightarrow> snd (createMap rt i w) = w"
  by (simp add: createMap_def split: sum.splits)

lemma createDetails_skip: "clinicDetails i = JObj [] \<Longrightarrow> createDetails rt i w = (None, w)"
  by (simp add: createDetails_def)

lemma createContents_title_untouched:
  assumes "titleSvg i = []"
  shows "slots (snd (createContents rt i w)) (titleSelector (parentSelector i))
           = slots w (titleSelector (parentSelector i))"
proof (cases rule: createContents_cases [of rt i w])
  case (1 w1 e)
  with createTitle_skip [OF assms, of rt w] show ?thesis by simp
next
  case (2 w1 w2 e)
  with createTitle_skip [OF assms, of rt w] createMap_frame [OF 2(2)] show ?thesis
    by (simp add: selectors_differ)
next
  case (3 w1 w2)
  obtain r w3 where d: "createDetails rt i w2 = (r, w3)"
    by (cases "createDetails rt i w2")
  with 3 createTitle_skip [OF assms, of rt w] createMap_frame [OF 3(2)]
    createDetails_frame [OF d]
  show ?thesis
    by (simp add: selectors_differ)
qed

lemma createContents_map_untouched:
  assumes "mapSvg i = []"
  shows "slots (snd (createContents rt i w)) (mapSelector (parentSelector i))
           = slots w (mapSelector (parentSelector i))"
proof (cases rule: createContents_cases [of rt i w])
  case (1 w1 e)
  with createTitle_frame [OF 1(1)] show ?thesis
    by (simp add: selectors_differ [symmetric])
next
  case (2 w1 w2 e)
  with createTitle_frame [OF 2(1)] createMap_skip [OF assms, of rt w1] show ?thesis
    by (simp add: selectors_differ [symmetric])
next
  case (3 w1 w2)
  obtain r w3 where d: "createDetails rt i w2 = (r, w3)"
    by (cases "createDetails rt i w2")
  with 3 createTitle_frame [OF 3(1)] createMap_skip [OF assms, of rt w1]
    createDetails_frame [OF d]
  show ?thesis
    by (simp add: selectors_differ selectors_differ [symmetric])
qed

lemma createContents_details_untouched:
  assumes "clinicDetails i = JObj []"
  shows "slots (snd (createContents rt i w)) (detailsSelector (parentSelector i))
           = slots w (detailsSelector (parentSelector i))"
proof (cases rule: createContents_cases [of rt i w])
  case (1 w1 e)
  with createTitle_frame [OF 1(1)] show ?thesis
    by (simp add: selectors_differ [symmetric])
next
  case (2 w1 w2 e)
  with createTitle_frame [OF 2(1)] createMap_frame [OF 2(2)] show ?thesis
    by (simp add: selectors_differ [symmetric])
next
  case (3 w1 w2)
  with createTitle_frame [OF 3(1)] createMap_frame [OF 3(2)]
    createDetails_skip [OF assms, of rt w2]
  show ?thesis
    by (simp add: selectors_differ [symmetric])
qed


lemma init_title_skipped:
  assumes "\<forall>res. delivered net (isVisibleTitle inst) titleUrl = Some res
             \<longrightarrow> \<not> isContentType res ''xml''"
  shows "titleSvg (fst (snd (init rt net inst w))) = titleSvg inst
       \<and> (titleSvg inst = [] \<longrightarrow>
            slots (snd (snd (init rt net inst w))) (titleSelector (parentSelector inst))
              = slots w (titleSelector (parentSelector inst)))"
proof -
  have kept: "titleSvg (snd (stored net inst)) = titleSvg inst"
    using assms by (simp add: stored_def setData_title_skip)
  have ps: "parentSelector (snd (stored net inst)) = parentSelector inst"
    using stored_setup [of net inst] by (simp add: sameSetup_def)
  show ?thesis
    using kept ps
      createContents_title_untouched [of "snd (stored net inst)" rt "fetched net inst w"]
    by (simp add: init_state init_slots fetched_def split: option.splits)
qed

lemma init_map_skipped:
  assumes "\<forall>res. delivered net (isVisibleMap inst) (mapUrl (clinicType inst)) = Some res
             \<longrightarrow> \<not> isContentType res ''xml''"
  shows "mapSvg (fst (snd (init rt net inst w))) = mapSvg inst
       \<and> (mapSvg inst = [] \<longrightarrow>
            slots (snd (snd (init rt net inst w))) (mapSelector (parentSelector inst))
              = slots w (mapSelector (parentSelector inst)))"
proof -
  have kept: "mapSvg (snd (stored net inst)) = mapSvg inst"
    using assms by (simp add: stored_def setData_map_skip)
  have ps: "parentSelector (snd (stored net inst)) = parentSelector inst"
    using stored_setup [of net inst] by (simp add: sameSetup_def)
  show ?thesis
    using kept ps
      createContents_map_untouched [of "snd (stored net inst)" rt "fetched net inst w"]
    by (simp add: init_state init_slots fetched_def split: option.splits)
qed

lemma init_details_skipped:
  assumes "\<forall>res. delivered net (isVisibleDetailsAccordion inst) (detailsUrl (clinicType inst))
               = Some res
             \<longrightarrow> \<not> isContentType res ''json''"
  shows "clinicDetails (fst (snd (init rt net inst w))) = clinicDetails inst
       \<and> (clinicDetails inst = JObj [] \<longrightarrow>
            slots (snd (snd (init rt net inst w))) (detailsSelector (parentSelector inst))
              = slots w (detailsSelector (parentSelector inst)))"
proof -
  have kept: "clinicDetails (snd (stored net inst)) = clinicDetails inst"
    using assms by (simp add: stored_def setData_details_skip)
  have ps: "parentSelector (snd (stored net inst)) = parentSelector inst"
    using stored_setup [of net inst] by (simp add: sameSetup_def)
  show ?thesis
    using kept ps
      createContents_details_untouched [of "snd (stored net inst)" rt "fetched net inst w"]
    by (simp add: init_state init_slots fetched_def split: option.splits)
qed

lemma no_header_no_type: "contentType res = None \<Longrightarrow> \<not> isContentType res type"
  by (simp add: isContentType_def)

lemma urls_differ:
  "titleUrl \<noteq> detailsUrl ct" "mapUrl ct \<noteq> detailsUrl ct'"
  by (simp_all add: titleUrl_def mapUrl_def detailsUrl_def)

lemma isContentType_json:
  "isContentType res ''json''
     = (case contentType res of None \<Rightarrow> False | Some ct \<Rightarrow> strIncludes ct ''application/json'')"
  by (auto simp: isContentType_def split: option.splits)

lemma isContentType_body: "isContentType (res\<lparr>bodyJson := b\<rparr>) type = isContentType res type"
  by (simp add: isContentType_def)

lemma init_ignores_unparsed_body:
  assumes "net (detailsUrl (clinicType inst)) = Inr res"
    and "\<not> ok res \<or> \<not> isContentType res ''json''"
  shows "init rt (net(detailsUrl (clinicType inst) := Inr (res\<lparr>bodyJson := b\<rparr>))) inst w
           = init rt net inst w"
proof -
  let ?url = "detailsUrl (clinicType inst)"
  let ?net = "net(?url := Inr (res\<lparr>bodyJson := b\<rparr>))"
  have dT: "delivered ?net v titleUrl = delivered net v titleUrl" for v
    by (simp add: delivered_def urls_differ)
  have dM: "delivered ?net v (mapUrl (clinicType inst)) = delivered net v (mapUrl (clinicType inst))"
    for v
    by (simp add: delivered_def urls_differ)
  have eT: "fetchErrors ?net v titleUrl = fetchErrors net v titleUrl" for v
    by (simp add: fetchErrors_def urls_differ)
  have eM: "fetchErrors ?net v (mapUrl (clinicType inst))
              = fetchErrors net v (mapUrl (clinicType inst))" for v
    by (simp add: fetchErrors_def urls_differ)
  have eD: "fetchErrors ?net v ?url = fetchErrors net v ?url" for v
    using assms(1) by (simp add: fetchErrors_def ok_def)
  have sD: "setClinicDetails (delivered ?net v ?url) i = setClinicDetails (delivered net v ?url) i"
    for v i
    using assms
    by (auto simp: delivered_def setClinicDetails_def isContentType_body ok_def)
  have st: "stored ?net inst = stored net inst"
    by (simp add: stored_def setData_def dT dM sD cong: sum.case_cong)
  have fe: "fetched ?net inst w = fetched net inst w"
    by (simp add: fetched_def eT eM eD)
  show ?thesis
    unfolding init_def initBody_eq st fe by (rule refl)
qed

lemma demo_east_contents:
  "slots v (detailsSelector ''#clinic-list-1'') \<noteq> None \<Longrightarrow>
   createContents exampleRuntime ((demoEmbedder m c)\<lparr>clinicDetails := eastDetails\<rparr>) v
     = (None,
        v\<lparr>slots := (slots v)(detailsSelector ''#clinic-list-1'' \<mapsto>
           [AccordionList
              [(areaHtml ''East'', [shopHtml ''Clinic A'' ''9-5'' ''Sun'' [] [] []])]])\<rparr>)"
proof -
  have len: "lengthPositive exampleRuntime eastDetails = Inr True"
    by (simp add: eastDetails_def)
  assume "slots v (detailsSelector ''#clinic-list-1'') \<noteq> None"
  then show ?thesis
    using len east_accordion [OF example_finds_body]
    by (auto simp: createContents_def andThen_def createTitle_def createMap_def
        createDetails_def querySelector_def replaceChildren_def demoEmbedder_def
        exampleRuntime_def)
qed















lemma hostWorld_slots:
  "slots hostWorld (titleSelector ''#clinic-list-1'') = Some [HostNode ''title'']"
  "slots hostWorld (mapSelector ''#clinic-list-1'') = Some [HostNode ''map'']"
  "slots hostWorld (detailsSelector ''#clinic-list-1'') = Some [HostNode ''details'']"
  by (simp_all add: hostWorld_def selectors_differ selectors_differ [symmetric])



section \<open>Construction\<close>

text \<open>
  Claim C4, as amended. \<open>embedClinicMap\<close> throws the "required" error for every
  configuration in which \<open>parentSelector\<close> or \<open>clinicType\<close> is absent or empty, and the
  "ID selector" error for every other configuration whose \<open>parentSelector\<close>, with its
  white space trimmed, does not start with \<open>#\<close>; no instance is returned then. For
  every configuration with both fields non-empty and a trimmed selector starting with
  \<open>#\<close>, construction succeeds whenever the browser accepts the three marker selectors.
\<close>

theorem embedClinicMap_construction:
  "(falsy (parentSelectorOpt cfg) \<or> falsy (clinicTypeOpt cfg)
        \<longrightarrow> embedClinicMap rt w cfg = Inl RequiredError)
   \<and> (parentSelectorOpt cfg = Some ps \<and> clinicTypeOpt cfg = Some ct \<and> ps \<noteq> [] \<and> ct \<noteq> []
        \<and> \<not> startsWith (trim ps) ''#''
        \<longrightarrow> embedClinicMap rt w cfg = Inl IdSelectorError)
   \<and> (parentSelectorOpt cfg = Some ps \<and> clinicTypeOpt cfg = Some ct \<and> ps \<noteq> [] \<and> ct \<noteq> []
        \<and> startsWith (trim ps) ''#''
        \<and> selectorOk rt (titleSelector ps) \<and> selectorOk rt (mapSelector ps)
        \<and> selectorOk rt (detailsSelector ps)
        \<longrightarrow> (\<exists>inst. embedClinicMap rt w cfg = Inr inst
               \<and> parentSelector inst = ps \<and> clinicType inst = ct))"
  by (auto simp: embedClinicMap_def querySelector_def falsy_def state_def split: option.splits)

text \<open>
  The theorem at three configurations of the demo page's shape: without \<open>clinicType\<close>,
  with a selector lacking the \<open>#\<close>, and complete.
\<close>

theorem embedClinicMap_construction_witness:
  "embedClinicMap exampleRuntime emptyWorld
      \<lparr>parentSelectorOpt = Some ''#clinic-list-1'', clinicTypeOpt = None, colorsOpt = None\<rparr>
     = Inl RequiredError
   \<and> embedClinicMap exampleRuntime emptyWorld
      \<lparr>parentSelectorOpt = Some ''clinic-list-1'', clinicTypeOpt = Some ''juno'', colorsOpt = None\<rparr>
     = Inl IdSelectorError
   \<and> (\<exists>inst. embedClinicMap exampleRuntime emptyWorld
      \<lparr>parentSelectorOpt = Some ''#clinic-list-1'', clinicTypeOpt = Some ''juno'', colorsOpt = None\<rparr>
     = Inr inst \<and> parentSelector inst = ''#clinic-list-1'' \<and> clinicType inst = ''juno'')"
proof -
  have t1: "trim ''clinic-list-1'' = ''clinic-list-1''" by code_simp
  have t2: "trim ''#clinic-list-1'' = ''#clinic-list-1''" by code_simp
  have a: "falsy (clinicTypeOpt \<lparr>parentSelectorOpt = Some ''#clinic-list-1'', clinicTypeOpt = None, colorsOpt = None\<rparr>)"
    by (simp add: falsy_def)
  have b: "\<not> startsWith (trim ''clinic-list-1'') ''#''"
    by (simp add: t1 startsWith_def)
  have c: "startsWith (trim ''#clinic-list-1'') ''#''"
    by (simp add: t2 startsWith_def)
  have ok: "selectorOk exampleRuntime sel" for sel
    by (simp add: exampleRuntime_def)
  show ?thesis
    using a b c ok
      embedClinicMap_construction [of "\<lparr>parentSelectorOpt = Some ''#clinic-list-1'', clinicTypeOpt = None, colorsOpt = None\<rparr>" exampleRuntime emptyWorld]
      embedClinicMap_construction [of "\<lparr>parentSelectorOpt = Some ''clinic-list-1'', clinicTypeOpt = Some ''juno'', colorsOpt = None\<rparr>" exampleRuntime emptyWorld "''clinic-list-1''" "''juno''"]
      embedClinicMap_construction [of "\<lparr>parentSelectorOpt = Some ''#clinic-list-1'', clinicTypeOpt = Some ''juno'', colorsOpt = None\<rparr>" exampleRuntime emptyWorld "''#clinic-list-1''" "''juno''"]
    by simp
qed

text \<open>
  Claim C4 as stated fails: the selector \<open>" #a"\<close> does not start with \<open>#\<close>, yet the
  validation trims it first and construction returns an instance.
\<close>

theorem embedClinicMap_trims_counterexample:
  "\<not> startsWith '' #a'' ''#''
   \<and> embedClinicMap exampleRuntime emptyWorld
        \<lparr>parentSelectorOpt = Some '' #a'', clinicTypeOpt = Some ''juno'', colorsOpt = None\<rparr>
      = Inr \<lparr>parentSelector = '' #a'', clinicType = ''juno'', mainColor = ''#000'',
             subColor = ''#fff'', titleSvg = [], mapSvg = [], clinicDetails = JObj [],
             isVisibleTitle = False, isVisibleMap = False, isVisibleDetailsAccordion = False\<rparr>"
proof -
  have t: "trim '' #a'' = ''#a''" by code_simp
  show ?thesis
    by (simp add: embedClinicMap_def querySelector_def startsWith_def t falsy_def state_def
      mergedColors_def defaultColors_def noColors_def exampleRuntime_def emptyWorld_def)
qed

section \<open>The stylesheet is appended when init completes\<close>





section \<open>Colours\<close>

text \<open>
  Claim C2, as amended. Whatever the colours of a configuration, construction throws
  exactly when it throws without them; the instance holds \<open>mainColor\<close> and \<open>subColor\<close> as
  configured, with \<open>#000\<close> and \<open>#fff\<close> only for a field that is absent; and the
  stylesheet that a completed \<open>init\<close> appends is built from these two texts as they are:
  it contains \<open>fill:\<close> followed by the main colour and \<open>background-color:\<close> followed by
  the sub colour.
\<close>

theorem colors_emitted_verbatim:
  "((embedClinicMap rt w (cfg\<lparr>colorsOpt := c\<rparr>) = Inl e) = (embedClinicMap rt w cfg = Inl e))
   \<and> (embedClinicMap rt w cfg = Inr inst \<longrightarrow>
        mainColor inst =
           (case colorsOpt cfg of
              None \<Rightarrow> ''#000''
            | Some c \<Rightarrow> (case mainColorOpt c of None \<Rightarrow> ''#000'' | Some m \<Rightarrow> m))
        \<and> subColor inst =
           (case colorsOpt cfg of
              None \<Rightarrow> ''#fff''
            | Some c \<Rightarrow> (case subColorOpt c of None \<Rightarrow> ''#fff'' | Some s \<Rightarrow> s))
        \<and> (fst (initBody rt net inst v) = None \<longrightarrow>
             headNodes (snd (snd (init rt net inst v)))
               = headNodes v
                 @ [StyleElement (styles (parentSelector inst) (mainColor inst) (subColor inst))])
        \<and> strIncludes (styles (parentSelector inst) (mainColor inst) (subColor inst))
             (''fill: '' @ mainColor inst)
        \<and> strIncludes (styles (parentSelector inst) (mainColor inst) (subColor inst))
             (''background-color: '' @ subColor inst))"
proof -
  have head: "fst (initBody rt net inst v) = None \<Longrightarrow>
             headNodes (snd (snd (init rt net inst v)))
               = headNodes v
                 @ [StyleElement (styles (parentSelector inst) (mainColor inst) (subColor inst))]"
    using initBody_head [of rt net inst v] by (simp add: init_eq)
  show ?thesis
    using embedClinicMap_ignores_colors [where rt = rt and w = w and cfg = cfg and c = c and e = e]
      embedClinicMap_colors [where rt = rt and w = w and cfg = cfg and inst = inst] head
      styles_fill [of "parentSelector inst" "mainColor inst" "subColor inst"]
      styles_background [of "parentSelector inst" "mainColor inst" "subColor inst"]
    by blast
qed

text \<open>The theorem with the colours of the demo page's first widget.\<close>

theorem colors_emitted_verbatim_witness:
  "embedClinicMap exampleRuntime hostWorld
      (demoConfig (Some \<lparr>mainColorOpt = Some ''#fd7ea5'', subColorOpt = Some ''#ffdee8''\<rparr>))
     = Inr (demoEmbedder ''#fd7ea5'' ''#ffdee8'')
   \<and> headNodes (snd (snd (init exampleRuntime offline (demoEmbedder ''#fd7ea5'' ''#ffdee8'')
                             hostWorld)))
     = [StyleElement (styles ''#clinic-list-1'' ''#fd7ea5'' ''#ffdee8'')]
   \<and> strIncludes (styles ''#clinic-list-1'' ''#fd7ea5'' ''#ffdee8'') ''fill: #fd7ea5''
   \<and> strIncludes (styles ''#clinic-list-1'' ''#fd7ea5'' ''#ffdee8'')
        ''background-color: #ffdee8''"
  using colors_emitted_verbatim [where rt = exampleRuntime and w = hostWorld
      and cfg = "demoConfig (Some \<lparr>mainColorOpt = Some ''#fd7ea5'', subColorOpt = Some ''#ffdee8''\<rparr>)"
      and c = None and e = RequiredError and inst = "demoEmbedder ''#fd7ea5'' ''#ffdee8''"
      and net = offline and v = hostWorld]
    demo_construction_colors [of "\<lparr>mainColorOpt = Some ''#fd7ea5'', subColorOpt = Some ''#ffdee8''\<rparr>"]
    offline_body [of "''#fd7ea5''" "''#ffdee8''" hostWorld]
  by (simp add: demoEmbedder_def hostWorld_def)

text \<open>
  Claim C2 as stated fails: \<open>embedClinicMap\<close> never validates a colour. With
  \<open>mainColor: "zzz"\<close> the stylesheet that \<open>init\<close> appends contains \<open>fill: zzz\<close>.
\<close>

theorem invalid_color_emitted_counterexample:
  "embedClinicMap exampleRuntime hostWorld
      (demoConfig (Some \<lparr>mainColorOpt = Some ''zzz'', subColorOpt = None\<rparr>))
     = Inr (demoEmbedder ''zzz'' ''#fff'')
   \<and> headNodes (snd (snd (init exampleRuntime offline (demoEmbedder ''zzz'' ''#fff'') hostWorld)))
     = [StyleElement (styles ''#clinic-list-1'' ''zzz'' ''#fff'')]
   \<and> strIncludes (styles ''#clinic-list-1'' ''zzz'' ''#fff'') ''fill: zzz''"
proof -
  have "headNodes (snd (snd (init exampleRuntime offline (demoEmbedder ''zzz'' ''#fff'') hostWorld)))
     = [StyleElement (styles ''#clinic-list-1'' ''zzz'' ''#fff'')]"
    using initBody_head [of exampleRuntime offline "demoEmbedder ''zzz'' ''#fff''" hostWorld]
      offline_body [of "''zzz''" "''#fff''" hostWorld]
    by (simp add: init_eq demoEmbedder_def hostWorld_def)
  then show ?thesis
    using demo_construction_colors [of "\<lparr>mainColorOpt = Some ''zzz'', subColorOpt = None\<rparr>"]
      styles_fill [of "''#clinic-list-1''" "''zzz''" "''#fff''"]
    by simp
qed

section \<open>Which resources are fetched\<close>

text \<open>
  Claim C6. \<open>init\<close> hands to \<open>fetch\<close> exactly the URLs of the sections whose presence
  flag is true, in the order title, map, details: each of the three fetches is issued
  if and only if its flag is true. The title is \<open>../images/title.svg\<close>; the map is
  \<open>map.svg\<close> under \<open>../images/\<close> and the clinic type; the details are
  \<open>clinic-details.json\<close> under \<open>../data/\<close> and the clinic type. The flags are the
  presence of the three markers under \<open>parentSelector\<close> at construction, and the clinic
  type is the one of the configuration. So on a page with the details marker only,
  \<open>init\<close> issues exactly one fetch, for the clinic-details JSON of the configured clinic
  type, and no title or map request.
\<close>

theorem init_fetches_visible_sections:
  "requests (snd (snd (init rt net inst w)))
     = requests w
       @ (if isVisibleTitle inst then [''../images/title.svg''] else [])
       @ (if isVisibleMap inst then [''../images/'' @ clinicType inst @ ''/map.svg''] else [])
       @ (if isVisibleDetailsAccordion inst
          then [''../data/'' @ clinicType inst @ ''/clinic-details.json''] else [])
   \<and> (embedClinicMap rt page cfg = Inr inst \<longrightarrow>
        clinicTypeOpt cfg = Some (clinicType inst)
        \<and> parentSelectorOpt cfg = Some (parentSelector inst)
        \<and> isVisibleTitle inst = (slots page (parentSelector inst @ '' [data-cl-title]'') \<noteq> None)
        \<and> isVisibleMap inst = (slots page (parentSelector inst @ '' [data-cl-map]'') \<noteq> None)
        \<and> isVisibleDetailsAccordion inst
            = (slots page (parentSelector inst @ '' [data-cl-details-accordion]'') \<noteq> None))
   \<and> (embedClinicMap rt page cfg = Inr inst
        \<and> parentSelectorOpt cfg = Some ps \<and> clinicTypeOpt cfg = Some ct
        \<and> slots page (ps @ '' [data-cl-title]'') = None
        \<and> slots page (ps @ '' [data-cl-map]'') = None
        \<and> slots page (ps @ '' [data-cl-details-accordion]'') \<noteq> None \<longrightarrow>
        requests (snd (snd (init rt net inst w)))
          = requests w @ [''../data/'' @ ct @ ''/clinic-details.json''])"
proof -
  have req: "requests (snd (snd (init rt net inst w))) = requests w @ requested inst"
    using initBody_requests [of rt net inst w]
    by (cases "fst (initBody rt net inst w)") (simp_all add: init_eq logError_def)
  show ?thesis
    using req embedClinicMap_flags [of rt page cfg inst] embedClinicMap_config [of rt page cfg inst]
    by (auto simp: requested_def titleUrl_def mapUrl_def detailsUrl_def
        titleSelector_def mapSelector_def detailsSelector_def)
qed

text \<open>
  The theorem on a page with the details marker only, for the clinic types \<open>juno\<close> and
  \<open>atom\<close>, and on the demo page with its three markers.
\<close>

theorem init_fetches_visible_sections_witness:
  "embedClinicMap exampleRuntime detailsOnlyWorld (demoConfig None)
     = Inr ((demoEmbedder ''#000'' ''#fff'')\<lparr>isVisibleTitle := False, isVisibleMap := False\<rparr>)
   \<and> slots detailsOnlyWorld ''#clinic-list-1 [data-cl-title]'' = None
   \<and> slots detailsOnlyWorld ''#clinic-list-1 [data-cl-map]'' = None
   \<and> slots detailsOnlyWorld ''#clinic-list-1 [data-cl-details-accordion]'' \<noteq> None
   \<and> requests (snd (snd (init exampleRuntime offline
         ((demoEmbedder ''#000'' ''#fff'')\<lparr>isVisibleTitle := False, isVisibleMap := False\<rparr>)
         detailsOnlyWorld)))
     = [''../data/juno/clinic-details.json'']
   \<and> embedClinicMap exampleRuntime detailsOnlyWorld
        ((demoConfig None)\<lparr>clinicTypeOpt := Some ''atom''\<rparr>)
     = Inr ((demoEmbedder ''#000'' ''#fff'')
              \<lparr>clinicType := ''atom'', isVisibleTitle := False, isVisibleMap := False\<rparr>)
   \<and> requests (snd (snd (init exampleRuntime offline
         ((demoEmbedder ''#000'' ''#fff'')
            \<lparr>clinicType := ''atom'', isVisibleTitle := False, isVisibleMap := False\<rparr>)
         detailsOnlyWorld)))
     = [''../data/atom/clinic-details.json'']
   \<and> requests (snd (snd (init exampleRuntime offline (demoEmbedder ''#000'' ''#fff'')
         hostWorld)))
     = [''../images/title.svg'', ''../images/juno/map.svg'',
        ''../data/juno/clinic-details.json'']"
proof -
  let ?juno = "(demoEmbedder ''#000'' ''#fff'')\<lparr>isVisibleTitle := False, isVisibleMap := False\<rparr>"
  let ?atom = "(demoEmbedder ''#000'' ''#fff'')
            \<lparr>clinicType := ''atom'', isVisibleTitle := False, isVisibleMap := False\<rparr>"
  have t: "trim ''#clinic-list-1'' = ''#clinic-list-1''" by code_simp
  have c: "embedClinicMap exampleRuntime detailsOnlyWorld (demoConfig None) = Inr ?juno"
    by (simp add: embedClinicMap_def querySelector_def startsWith_def t falsy_def state_def
      mergedColors_def defaultColors_def noColors_def example_defs detailsOnlyWorld_def)
  have c': "embedClinicMap exampleRuntime detailsOnlyWorld
        ((demoConfig None)\<lparr>clinicTypeOpt := Some ''atom''\<rparr>) = Inr ?atom"
    by (simp add: embedClinicMap_def querySelector_def startsWith_def t falsy_def state_def
      mergedColors_def defaultColors_def noColors_def example_defs detailsOnlyWorld_def)
  have s: "slots detailsOnlyWorld ''#clinic-list-1 [data-cl-title]'' = None
   \<and> slots detailsOnlyWorld ''#clinic-list-1 [data-cl-map]'' = None
   \<and> slots detailsOnlyWorld ''#clinic-list-1 [data-cl-details-accordion]'' \<noteq> None"
    by (simp add: detailsOnlyWorld_def detailsSelector_def)
  have cfg: "parentSelectorOpt (demoConfig None) = Some ''#clinic-list-1''"
    "clinicTypeOpt (demoConfig None) = Some ''juno''"
    by (simp_all add: demoConfig_def)
  note j = init_fetches_visible_sections [where rt = exampleRuntime and net = offline
        and inst = ?juno and w = detailsOnlyWorld and page = detailsOnlyWorld
        and cfg = "demoConfig None" and ps = "''#clinic-list-1''" and ct = "''juno''"]
  note a = init_fetches_visible_sections [where rt = exampleRuntime and net = offline
        and inst = ?atom and w = detailsOnlyWorld and page = detailsOnlyWorld
        and cfg = "(demoConfig None)\<lparr>clinicTypeOpt := Some ''atom''\<rparr>"
        and ps = "''#clinic-list-1''" and ct = "''atom''"]
  note d = init_fetches_visible_sections [where rt = exampleRuntime and net = offline
        and inst = "demoEmbedder ''#000'' ''#fff''" and w = hostWorld]
  have rj: "requests (snd (snd (init exampleRuntime offline ?juno detailsOnlyWorld)))
     = [''../data/juno/clinic-details.json'']"
    using c s cfg j by (simp add: detailsOnlyWorld_def)
  have ra: "requests (snd (snd (init exampleRuntime offline ?atom detailsOnlyWorld)))
     = [''../data/atom/clinic-details.json'']"
    using c' s cfg a by (simp add: detailsOnlyWorld_def demoEmbedder_def)
  have rd: "requests (snd (snd (init exampleRuntime offline (demoEmbedder ''#000'' ''#fff'')
         hostWorld)))
     = [''../images/title.svg'', ''../images/juno/map.svg'',
        ''../data/juno/clinic-details.json'']"
    using d by (simp add: demoEmbedder_def hostWorld_def)
  from c c' s rj ra rd show ?thesis
    by simp
qed

section \<open>The accordion of one area with one clinic\<close>

text \<open>
  Claim C7. Take the details
  \<open>[{"area":"East","clinics":[{"name":"Clinic A","hours":"9-5","closed":"Sun"}]}]\<close>, and
  a browser that finds the item body in the markup of the item. Building the accordion
  does not throw and gives exactly one area item, labelled \<open>East\<close> followed by the area
  word, with exactly one clinic entry in its body. The entry is the clinic's markup
  with the name \<open>Clinic A\<close>, the hours \<open>9-5\<close>, the closed day \<open>Sun\<close>, empty cells
  for the absent address and stations, and the empty text where the iframe would be: it
  has no iframe. With the details marker present, \<open>createContents\<close> puts this accordion
  into the details slot. The item and the entry are written out in full.
\<close>

theorem east_details_rendered:
  assumes details:
    \<open>details = JArr [JObj [(''area'', JStr ''East''),
                       (''clinics'',
                        JArr [JObj [(''name'', JStr ''Clinic A''), (''hours'', JStr ''9-5''),
                                    (''closed'', JStr ''Sun'')]])]]\<close>
  and item:
    \<open>item =
       concat
        [''\<newline>'',
         ''        <div class="cl-details-acd__list-item">\<newline>'',
         ''          <label class="cl-details-acd__list-item-header">\<newline>'',
         ''            <input type="checkbox">\<newline>'',
         ''            East'',
         [CHR 0xE3, CHR 0x82, CHR 0xA8, CHR 0xE3, CHR 0x83, CHR 0xAA, CHR 0xE3, CHR 0x82, CHR 0xA2],
         ''\<newline>'',
         ''          </label>\<newline>'',
         ''          <div class="cl-details-acd__list-item-body"></div>\<newline>'',
         ''        </div>\<newline>'',
         ''      '']\<close>
  and shop:
    \<open>shop =
       concat
        [''\<newline>'',
         ''        <div class="cl-details-acd__list-sub-item">\<newline>'',
         ''          <div class="cl-details-acd__list-sub-item-header">Clinic A</div>\<newline>'',
         ''          <table class="cl-details-acd__list-sub-item-table">\<newline>'',
         ''            <tr>\<newline>'',
         ''              <th>'',
         [CHR 0xE8, CHR 0xA8, CHR 0xBA, CHR 0xE7, CHR 0x99, CHR 0x82, CHR 0xE6, CHR 0x99, CHR 0x82, CHR 0xE9, CHR 0x96, CHR 0x93],
         ''</th>\<newline>'',
         ''              <td>9-5</td>\<newline>'',
         ''            </tr>\<newline>'',
         ''            <tr>\<newline>'',
         ''              <th>'',
         [CHR 0xE4, CHR 0xBC, CHR 0x91, CHR 0xE8, CHR 0xA8, CHR 0xBA, CHR 0xE6, CHR 0x97, CHR 0xA5],
         ''</th>\<newline>'',
         ''              <td>Sun</td>\<newline>'',
         ''            </tr>\<newline>'',
         ''            <tr>\<newline>'',
         ''              <th>'',
         [CHR 0xE4, CHR 0xBD, CHR 0x8F, CHR 0xE6, CHR 0x89, CHR 0x80],
         ''</th>\<newline>'',
         ''              <td></td>\<newline>'',
         ''            </tr>\<newline>'',
         ''            <tr>\<newline>'',
         ''              <th>'',
         [CHR 0xE6, CHR 0x9C, CHR 0x80, CHR 0xE5, CHR 0xAF, CHR 0x84, CHR 0xE9, CHR 0xA7, CHR 0x85],
         ''</th>\<newline>'',
         ''              <td></td>\<newline>'',
         ''            </tr>\<newline>'',
         ''          </table>\<newline>'',
         ''          \<newline>'',
         ''        </div>\<newline>'',
         ''      '']\<close>
  and found: "fragmentHas rt item ''.cl-details-acd__list-item-body''"
  shows
    \<open>createClinicDetailsAccordion rt details = Inr (AccordionList [(item, [shop])])
     \<and> \<not> strIncludes shop ''<iframe''
     \<and> (isVisibleDetailsAccordion inst \<and> clinicDetails inst = details
          \<and> titleSvg inst = [] \<and> mapSvg inst = []
          \<and> selectorOk rt (parentSelector inst @ '' [data-cl-map]'')
          \<and> selectorOk rt (parentSelector inst @ '' [data-cl-details-accordion]'')
          \<and> slots w (parentSelector inst @ '' [data-cl-details-accordion]'') \<noteq> None
        \<longrightarrow> createContents rt inst w
            = (None,
               w\<lparr>slots := (slots w)(parentSelector inst @ '' [data-cl-details-accordion]'' \<mapsto>
                    [AccordionList [(item, [shop])]])\<rparr>))\<close>
proof -
  have i: "item = areaHtml ''East''"
    using item by (simp add: east_item)
  have s: "shop = shopHtml ''Clinic A'' ''9-5'' ''Sun'' [] [] []"
    using shop by (simp add: east_shop)
  have d: "details = eastDetails"
    using details by (simp add: eastDetails_def)
  have f: "fragmentHas rt (areaHtml ''East'') itemBodySelector"
    using found i by (simp add: itemBodySelector_def)
  have build: "createClinicDetailsAccordion rt details = Inr (AccordionList [(item, [shop])])"
    unfolding i s d by (rule east_accordion [OF f])
  have nif: "\<not> strIncludes shop ''<iframe''"
    unfolding s by (rule no_iframe)
  have render: "createContents rt inst w
          = (None,
             w\<lparr>slots := (slots w)(parentSelector inst @ '' [data-cl-details-accordion]'' \<mapsto>
                  [AccordionList [(item, [shop])]])\<rparr>)"
    if "isVisibleDetailsAccordion inst" "clinicDetails inst = details"
      "titleSvg inst = []" "mapSvg inst = []"
      "selectorOk rt (parentSelector inst @ '' [data-cl-map]'')"
      "selectorOk rt (parentSelector inst @ '' [data-cl-details-accordion]'')"
      "slots w (parentSelector inst @ '' [data-cl-details-accordion]'') \<noteq> None"
  proof -
    have len: "lengthPositive rt details = Inr True"
      by (simp add: d eastDetails_def)
    show ?thesis
      using that len build
      by (auto simp: createContents_def andThen_def createTitle_def createMap_def
          createDetails_def querySelector_def replaceChildren_def
          mapSelector_def detailsSelector_def)
  qed
  show ?thesis
    using build nif render by blast
qed

text \<open>
  The theorem on the demo page: the example browser finds the item body, and the
  placeholder of the details slot gives way to the accordion.
\<close>

theorem east_details_rendered_witness:
  "createClinicDetailsAccordion exampleRuntime eastDetails
     = Inr (AccordionList
              [(areaHtml ''East'', [shopHtml ''Clinic A'' ''9-5'' ''Sun'' [] [] []])])
   \<and> slots hostWorld (detailsSelector ''#clinic-list-1'') = Some [HostNode ''details'']
   \<and> createContents exampleRuntime
        ((demoEmbedder ''#000'' ''#fff'')\<lparr>clinicDetails := eastDetails\<rparr>) hostWorld
     = (None,
        hostWorld\<lparr>slots := (slots hostWorld)(detailsSelector ''#clinic-list-1'' \<mapsto>
           [AccordionList
              [(areaHtml ''East'', [shopHtml ''Clinic A'' ''9-5'' ''Sun'' [] [] []])]])\<rparr>)"
proof -
  have f: "fragmentHas exampleRuntime (areaHtml ''East'') ''.cl-details-acd__list-item-body''"
    using example_finds_body by (simp add: itemBodySelector_def)
  have ok: "selectorOk exampleRuntime sel" for sel
    by (simp add: exampleRuntime_def)
  show ?thesis
    using east_details_rendered [where rt = exampleRuntime and details = eastDetails
        and item = "areaHtml ''East''" and shop = "shopHtml ''Clinic A'' ''9-5'' ''Sun'' [] [] []"
        and w = hostWorld
        and inst = "(demoEmbedder ''#000'' ''#fff'')\<lparr>clinicDetails := eastDetails\<rparr>",
        OF _ east_item east_shop f]
      ok hostWorld_slots
    by (simp add: eastDetails_def demoEmbedder_def detailsSelector_def)
qed

section \<open>A failed accordion leaves the details slot alone\<close>

text \<open>
  Claim C9. The accordion is built before the details slot is cleared: if building it
  throws, the details step of \<open>createContents\<close> leaves the whole page as it was, and
  after \<open>createContents\<close> the details slot holds what it held before. Building throws
  in particular when some area of the details has no \<open>clinics\<close> or has \<open>clinics\<close> that
  are not an array.
\<close>

theorem details_render_atomic:
  "(createClinicDetailsAccordion rt (clinicDetails inst) = Inl e \<longrightarrow>
      snd (createDetails rt inst w) = w
      \<and> slots (snd (createContents rt inst w)) (detailsSelector (parentSelector inst))
          = slots w (detailsSelector (parentSelector inst)))
   \<and> (a \<in> set areas \<and> (\<forall>cs. propOf a ''clinics'' \<noteq> Some (JArr cs)) \<longrightarrow>
        (\<exists>e'. createClinicDetailsAccordion rt (JArr areas) = Inl e'))"
proof -
  have keep: "slots (snd (createContents rt inst w)) (detailsSelector (parentSelector inst))
          = slots w (detailsSelector (parentSelector inst))"
    if thrown: "createClinicDetailsAccordion rt (clinicDetails inst) = Inl e"
  proof (cases rule: createContents_cases [of rt inst w])
    case (1 w1 e1)
    with createTitle_frame [OF 1(1)] show ?thesis
      by (simp add: selectors_differ [symmetric])
  next
    case (2 w1 w2 e2)
    with createTitle_frame [OF 2(1)] createMap_frame [OF 2(2)] show ?thesis
      by (simp add: selectors_differ [symmetric])
  next
    case (3 w1 w2)
    with createTitle_frame [OF 3(1)] createMap_frame [OF 3(2)]
      createDetails_throw_keeps [OF thrown, of w2]
    show ?thesis
      by (simp add: selectors_differ [symmetric])
  qed
  have build: "\<exists>e'. createClinicDetailsAccordion rt (JArr areas) = Inl e'"
    if inside: "a \<in> set areas" and none: "\<forall>cs. propOf a ''clinics'' \<noteq> Some (JArr cs)"
  proof -
    obtain e1 where e1: "areaEntry rt a = Inl e1"
      using areaEntry_without_clinics [OF none] by blast
    from forEach_throws [where f = "areaEntry rt", OF inside e1] show ?thesis
      by (auto simp: createClinicDetailsAccordion_def)
  qed
  show ?thesis
    using keep build createDetails_throw_keeps [of rt inst e w] by blast
qed

text \<open>
  The theorem on the demo page with the details \<open>[{"area":"East"}]\<close>: the placeholder of
  the details slot stays.
\<close>

theorem details_render_atomic_witness:
  "createClinicDetailsAccordion exampleRuntime (JArr [JObj [(''area'', JStr ''East'')]])
     = Inl (TypeError ''forEach'')
   \<and> snd (createDetails exampleRuntime
             ((demoEmbedder ''#000'' ''#fff'')
                \<lparr>clinicDetails := JArr [JObj [(''area'', JStr ''East'')]]\<rparr>) hostWorld)
       = hostWorld
   \<and> slots (snd (createContents exampleRuntime
             ((demoEmbedder ''#000'' ''#fff'')
                \<lparr>clinicDetails := JArr [JObj [(''area'', JStr ''East'')]]\<rparr>) hostWorld))
        (detailsSelector ''#clinic-list-1'')
       = Some [HostNode ''details'']"
proof -
  have b: "createClinicDetailsAccordion exampleRuntime (JArr [JObj [(''area'', JStr ''East'')]])
     = Inl (TypeError ''forEach'')"
    by (simp add: createClinicDetailsAccordion_def areaEntry_def after_def)
  show ?thesis
    using b details_render_atomic [where rt = exampleRuntime and w = hostWorld
        and e = "TypeError ''forEach''"
        and inst = "(demoEmbedder ''#000'' ''#fff'')
                \<lparr>clinicDetails := JArr [JObj [(''area'', JStr ''East'')]]\<rparr>"
        and a = "JObj [(''area'', JStr ''East'')]"
        and areas = "[JObj [(''area'', JStr ''East'')]]"]
    by (simp add: demoEmbedder_def hostWorld_def selectors_differ selectors_differ [symmetric])
qed

section \<open>A response without a Content-Type header\<close>

text \<open>
  Claim C10, as amended. For a response with no Content-Type header, \<open>isContentType\<close>
  is false for every expected type. For each of the three sections, when its fetch
  succeeds with such a response, \<open>init\<close> does not write the section's field of the
  state: the field keeps the value it had. On an instance whose field still has its
  initial value the section's slot is left as it was: the section is not rendered.
\<close>

theorem missing_content_type_is_mismatch:
  "(contentType res = None \<longrightarrow> \<not> isContentType res type)
   \<and> (net titleUrl = Inr res \<and> ok res \<and> contentType res = None \<longrightarrow>
        titleSvg (fst (snd (init rt net inst w))) = titleSvg inst
        \<and> (titleSvg inst = [] \<longrightarrow>
             slots (snd (snd (init rt net inst w))) (titleSelector (parentSelector inst))
               = slots w (titleSelector (parentSelector inst))))
   \<and> (net (mapUrl (clinicType inst)) = Inr res \<and> ok res \<and> contentType res = None \<longrightarrow>
        mapSvg (fst (snd (init rt net inst w))) = mapSvg inst
        \<and> (mapSvg inst = [] \<longrightarrow>
             slots (snd (snd (init rt net inst w))) (mapSelector (parentSelector inst))
               = slots w (mapSelector (parentSelector inst))))
   \<and> (net (detailsUrl (clinicType inst)) = Inr res \<and> ok res \<and> contentType res = None \<longrightarrow>
        clinicDetails (fst (snd (init rt net inst w))) = clinicDetails inst
        \<and> (clinicDetails inst = JObj [] \<longrightarrow>
             slots (snd (snd (init rt net inst w))) (detailsSelector (parentSelector inst))
               = slots w (detailsSelector (parentSelector inst))))"
proof -
  have t: "\<forall>r. delivered net (isVisibleTitle inst) titleUrl = Some r
             \<longrightarrow> \<not> isContentType r ''xml''"
    if "net titleUrl = Inr res" "contentType res = None"
    using that by (auto dest!: delivered_cases simp: no_header_no_type)
  have m: "\<forall>r. delivered net (isVisibleMap inst) (mapUrl (clinicType inst)) = Some r
             \<longrightarrow> \<not> isContentType r ''xml''"
    if "net (mapUrl (clinicType inst)) = Inr res" "contentType res = None"
    using that by (auto dest!: delivered_cases simp: no_header_no_type)
  have d: "\<forall>r. delivered net (isVisibleDetailsAccordion inst) (detailsUrl (clinicType inst))
               = Some r
             \<longrightarrow> \<not> isContentType r ''json''"
    if "net (detailsUrl (clinicType inst)) = Inr res" "contentType res = None"
    using that by (auto dest!: delivered_cases simp: no_header_no_type)
  show ?thesis
    using no_header_no_type [of res type]
      init_title_skipped [OF t, of rt w] init_map_skipped [OF m, of rt w]
      init_details_skipped [OF d, of rt w]
    by blast
qed


text \<open>
  The theorem on the demo page, all three responses without the header: the state
  keeps its initial values and the three placeholders stay.
\<close>

theorem missing_content_type_is_mismatch_witness:
  "\<not> isContentType headerless ''xml'' \<and> \<not> isContentType headerless ''json''
   \<and> titleSvg (fst (snd (init exampleRuntime
          (exampleNetwork (Inr headerless) (Inr headerless) (Inr headerless))
          (demoEmbedder ''#000'' ''#fff'') hostWorld))) = []
   \<and> mapSvg (fst (snd (init exampleRuntime
          (exampleNetwork (Inr headerless) (Inr headerless) (Inr headerless))
          (demoEmbedder ''#000'' ''#fff'') hostWorld))) = []
   \<and> clinicDetails (fst (snd (init exampleRuntime
          (exampleNetwork (Inr headerless) (Inr headerless) (Inr headerless))
          (demoEmbedder ''#000'' ''#fff'') hostWorld))) = JObj []
   \<and> slots (snd (snd (init exampleRuntime
          (exampleNetwork (Inr headerless) (Inr headerless) (Inr headerless))
          (demoEmbedder ''#000'' ''#fff'') hostWorld))) (titleSelector ''#clinic-list-1'')
       = Some [HostNode ''title'']
   \<and> slots (snd (snd (init exampleRuntime
          (exampleNetwork (Inr headerless) (Inr headerless) (Inr headerless))
          (demoEmbedder ''#000'' ''#fff'') hostWorld))) (mapSelector ''#clinic-list-1'')
       = Some [HostNode ''map'']
   \<and> slots (snd (snd (init exampleRuntime
          (exampleNetwork (Inr headerless) (Inr headerless) (Inr headerless))
          (demoEmbedder ''#000'' ''#fff'') hostWorld))) (detailsSelector ''#clinic-list-1'')
       = Some [HostNode ''details'']"
proof -
  let ?net = "exampleNetwork (Inr headerless) (Inr headerless) (Inr headerless)"
  have n: "?net titleUrl = Inr headerless" "?net (mapUrl ''juno'') = Inr headerless"
    "?net (detailsUrl ''juno'') = Inr headerless"
    by (simp_all add: exampleNetwork_def titleUrl_def mapUrl_def detailsUrl_def)
  have h: "ok headerless" "contentType headerless = None"
    by (simp_all add: headerless_def ok_def)
  have d: "clinicType (demoEmbedder ''#000'' ''#fff'') = ''juno''"
    "parentSelector (demoEmbedder ''#000'' ''#fff'') = ''#clinic-list-1''"
    "titleSvg (demoEmbedder ''#000'' ''#fff'') = []" "mapSvg (demoEmbedder ''#000'' ''#fff'') = []"
    "clinicDetails (demoEmbedder ''#000'' ''#fff'') = JObj []"
    by (simp_all add: demoEmbedder_def)
  have s: "slots hostWorld (titleSelector ''#clinic-list-1'') = Some [HostNode ''title'']"
    "slots hostWorld (mapSelector ''#clinic-list-1'') = Some [HostNode ''map'']"
    "slots hostWorld (detailsSelector ''#clinic-list-1'') = Some [HostNode ''details'']"
    by (simp_all add: hostWorld_def selectors_differ selectors_differ [symmetric])
  show ?thesis
    using n h d s
      missing_content_type_is_mismatch [where res = headerless and net = ?net
        and inst = "demoEmbedder ''#000'' ''#fff''" and w = hostWorld and rt = exampleRuntime
        and type = "''xml''"]
      missing_content_type_is_mismatch [where res = headerless and net = ?net
        and inst = "demoEmbedder ''#000'' ''#fff''" and w = hostWorld and rt = exampleRuntime
        and type = "''json''"]
    by simp
qed

text \<open>
  Claim C10 as stated fails on an instance that has loaded before. The first \<open>init\<close>
  stores the title; the second \<open>init\<close> runs on a page whose title marker holds its
  placeholder again, and its title fetch succeeds with a response that has no
  Content-Type header. The title of the first load is still in the state, and
  \<open>createContents\<close> renders it: the section is rendered.
\<close>

theorem headerless_rerenders_counterexample:
  "ok headerless \<and> contentType headerless = None
   \<and> slots hostWorld (titleSelector ''#clinic-list-1'') = Some [HostNode ''title'']
   \<and> titleSvg (fst (snd (init exampleRuntime
          (exampleNetwork (Inr (svgResponse ''<svg>title</svg>'')) (Inr notFound) (Inr notFound))
          (demoEmbedder ''#000'' ''#fff'') hostWorld))) = ''<svg>title</svg>''
   \<and> slots (snd (snd (init exampleRuntime
          (exampleNetwork (Inr headerless) (Inr notFound) (Inr notFound))
          (fst (snd (init exampleRuntime
             (exampleNetwork (Inr (svgResponse ''<svg>title</svg>'')) (Inr notFound)
                (Inr notFound))
             (demoEmbedder ''#000'' ''#fff'') hostWorld)))
          hostWorld))) (titleSelector ''#clinic-list-1'')
       = Some [SvgRoot ''<svg>title</svg>'']"
proof -
  let ?first = "exampleNetwork (Inr (svgResponse ''<svg>title</svg>'')) (Inr notFound)
      (Inr notFound)"
  let ?second = "exampleNetwork (Inr headerless) (Inr notFound) (Inr notFound)"
  let ?demo = "demoEmbedder ''#000'' ''#fff''"
  let ?loaded = "?demo\<lparr>titleSvg := ''<svg>title</svg>''\<rparr>"
  have h: "ok headerless" "contentType headerless = None"
    by (simp_all add: headerless_def ok_def)
  have st1: "stored ?first ?demo = (None, ?loaded)"
    by (simp add: stored_def delivered_def setData_def setTitleSvg_def setMapSvg_def
        setClinicDetails_def isContentType_def ok_def example_defs)
  have st2: "stored ?second ?loaded = (None, ?loaded)"
    by (simp add: stored_def delivered_def setData_def setTitleSvg_def setMapSvg_def
        setClinicDetails_def isContentType_def ok_def headerless_def example_defs)
  have one: "fst (snd (init exampleRuntime ?first ?demo hostWorld)) = ?loaded"
    by (simp add: init_state st1)
  have cc: "slots (snd (createContents exampleRuntime ?loaded (fetched ?second ?loaded hostWorld)))
              (titleSelector ''#clinic-list-1'')
       = Some [SvgRoot ''<svg>title</svg>'']"
    by (simp add: createContents_def andThen_def createTitle_def createMap_def createDetails_def
        querySelector_def replaceChildren_def fetched_def demoEmbedder_def hostWorld_def
        exampleRuntime_def selectors_differ selectors_differ [symmetric])
  have two: "slots (snd (snd (init exampleRuntime ?second ?loaded hostWorld)))
               (titleSelector ''#clinic-list-1'')
       = Some [SvgRoot ''<svg>title</svg>'']"
    by (simp add: init_slots st2 cc)
  show ?thesis
    using h hostWorld_slots one two by simp
qed

section \<open>Details that do not arrive as JSON\<close>

text \<open>
  Claim C5, as amended. The details response counts as JSON exactly when its
  Content-Type header is there and contains the text \<open>application/json\<close>. If the details
  fetch resolves with a status that is not a success, or with a response that does not
  count as JSON, then \<open>init\<close> is fulfilled; the body is not parsed, since \<open>init\<close> does
  the same whatever \<open>json()\<close> would give; \<open>clinicDetails\<close> keeps its value; and on an
  instance whose \<open>clinicDetails\<close> is still the empty default the details slot is left as
  it was.
\<close>

theorem details_not_json_not_rendered:
  "(isContentType res ''json''
      = (case contentType res of None \<Rightarrow> False | Some ct \<Rightarrow> strIncludes ct ''application/json''))
   \<and> (net (detailsUrl (clinicType inst)) = Inr res
        \<and> (\<not> ok res \<or> \<not> isContentType res ''json'') \<longrightarrow>
        fst (init rt net inst w) = Fulfilled
        \<and> init rt (net(detailsUrl (clinicType inst) := Inr (res\<lparr>bodyJson := b\<rparr>))) inst w
            = init rt net inst w
        \<and> clinicDetails (fst (snd (init rt net inst w))) = clinicDetails inst
        \<and> (clinicDetails inst = JObj [] \<longrightarrow>
             slots (snd (snd (init rt net inst w))) (detailsSelector (parentSelector inst))
               = slots w (detailsSelector (parentSelector inst))))"
proof -
  have skip: "\<forall>r. delivered net (isVisibleDetailsAccordion inst) (detailsUrl (clinicType inst))
               = Some r
             \<longrightarrow> \<not> isContentType r ''json''"
    if "net (detailsUrl (clinicType inst)) = Inr res" "\<not> ok res \<or> \<not> isContentType res ''json''"
    using that by (auto dest!: delivered_cases)
  have ful: "fst (init rt net inst w) = Fulfilled"
    by (simp add: init_eq)
  show ?thesis
    using isContentType_json [of res] ful
      init_ignores_unparsed_body [of net inst res rt b w]
      init_details_skipped [OF skip, of rt w]
    by blast
qed

text \<open>
  The theorem on the demo page, for a details response with the status 404 and for
  one with the content type \<open>text/html\<close>.
\<close>

theorem details_not_json_not_rendered_witness:
  "clinicDetails (fst (snd (init exampleRuntime
        (exampleNetwork (Inl (NetworkError ''Failed to fetch'')) (Inl (NetworkError ''Failed to fetch''))
           (Inr notFound))
        (demoEmbedder ''#000'' ''#fff'') hostWorld))) = JObj []
   \<and> slots (snd (snd (init exampleRuntime
        (exampleNetwork (Inl (NetworkError ''Failed to fetch'')) (Inl (NetworkError ''Failed to fetch''))
           (Inr notFound))
        (demoEmbedder ''#000'' ''#fff'') hostWorld))) (detailsSelector ''#clinic-list-1'')
       = Some [HostNode ''details'']
   \<and> clinicDetails (fst (snd (init exampleRuntime
        (exampleNetwork (Inl (NetworkError ''Failed to fetch'')) (Inl (NetworkError ''Failed to fetch''))
           (Inr (jsonResponse ''text/html'' (Inr eastDetails))))
        (demoEmbedder ''#000'' ''#fff'') hostWorld))) = JObj []
   \<and> slots (snd (snd (init exampleRuntime
        (exampleNetwork (Inl (NetworkError ''Failed to fetch'')) (Inl (NetworkError ''Failed to fetch''))
           (Inr (jsonResponse ''text/html'' (Inr eastDetails))))
        (demoEmbedder ''#000'' ''#fff'') hostWorld))) (detailsSelector ''#clinic-list-1'')
       = Some [HostNode ''details'']"
proof -
  let ?down = "Inl (NetworkError ''Failed to fetch'') :: error + int response"
  let ?n1 = "exampleNetwork ?down ?down (Inr notFound)"
  let ?n2 = "exampleNetwork ?down ?down (Inr (jsonResponse ''text/html'' (Inr eastDetails)))"
  have n: "?n1 (detailsUrl ''juno'') = Inr notFound"
    "?n2 (detailsUrl ''juno'') = Inr (jsonResponse ''text/html'' (Inr eastDetails))"
    by (simp_all add: exampleNetwork_def titleUrl_def mapUrl_def detailsUrl_def)
  have h: "\<not> ok notFound" "\<not> isContentType (jsonResponse ''text/html'' (Inr eastDetails)) ''json''"
    by (simp_all add: notFound_def ok_def isContentType_def jsonResponse_def)
  have d: "clinicType (demoEmbedder ''#000'' ''#fff'') = ''juno''"
    "parentSelector (demoEmbedder ''#000'' ''#fff'') = ''#clinic-list-1''"
    "clinicDetails (demoEmbedder ''#000'' ''#fff'') = JObj []"
    by (simp_all add: demoEmbedder_def)
  have s: "slots hostWorld (detailsSelector ''#clinic-list-1'') = Some [HostNode ''details'']"
    by (simp add: hostWorld_def selectors_differ selectors_differ [symmetric])
  show ?thesis
    using n h d s
      details_not_json_not_rendered [where res = notFound and net = ?n1
        and inst = "demoEmbedder ''#000'' ''#fff''" and w = hostWorld and rt = exampleRuntime]
      details_not_json_not_rendered [where res = "jsonResponse ''text/html'' (Inr eastDetails)"
        and net = ?n2
        and inst = "demoEmbedder ''#000'' ''#fff''" and w = hostWorld and rt = exampleRuntime]
    by simp
qed


text \<open>
  Claim C5 as stated fails: the content type \<open>application/json-patch+json\<close> is a type
  other than \<open>application/json\<close>, yet it contains that text, so the body is parsed,
  \<open>clinicDetails\<close> is set and the accordion is rendered.
\<close>

theorem json_patch_parsed_counterexample:
  "contentType (jsonResponse ''application/json-patch+json'' (Inr eastDetails))
     = Some ''application/json-patch+json''
   \<and> ''application/json-patch+json'' \<noteq> ''application/json''
   \<and> clinicDetails (fst (snd (init exampleRuntime
        (exampleNetwork (Inr notFound) (Inr notFound)
           (Inr (jsonResponse ''application/json-patch+json'' (Inr eastDetails))))
        (demoEmbedder ''#000'' ''#fff'') hostWorld))) = eastDetails
   \<and> slots (snd (snd (init exampleRuntime
        (exampleNetwork (Inr notFound) (Inr notFound)
           (Inr (jsonResponse ''application/json-patch+json'' (Inr eastDetails))))
        (demoEmbedder ''#000'' ''#fff'') hostWorld))) (detailsSelector ''#clinic-list-1'')
       = Some [AccordionList
                 [(areaHtml ''East'', [shopHtml ''Clinic A'' ''9-5'' ''Sun'' [] [] []])]]"
proof -
  let ?net = "exampleNetwork (Inr notFound) (Inr notFound)
           (Inr (jsonResponse ''application/json-patch+json'' (Inr eastDetails)))"
  let ?demo = "demoEmbedder ''#000'' ''#fff''"
  have st: "stored ?net ?demo = (None, ?demo\<lparr>clinicDetails := eastDetails\<rparr>)"
    by (simp add: stored_def delivered_def setData_def setTitleSvg_def setMapSvg_def
        setClinicDetails_def isContentType_def ok_def example_defs)
  have sl: "slots (fetched ?net ?demo hostWorld) (detailsSelector ''#clinic-list-1'') \<noteq> None"
    by (simp add: fetched_def hostWorld_def)
  have c1: "contentType (jsonResponse ''application/json-patch+json'' (Inr eastDetails))
     = Some ''application/json-patch+json''"
    by (simp add: jsonResponse_def)
  have c2: "''application/json-patch+json'' \<noteq> ''application/json''"
    by simp
  have c3: "clinicDetails (fst (snd (init exampleRuntime ?net ?demo hostWorld))) = eastDetails"
    by (simp add: init_state st)
  have c4: "slots (snd (snd (init exampleRuntime ?net ?demo hostWorld)))
              (detailsSelector ''#clinic-list-1'')
       = Some [AccordionList
                 [(areaHtml ''East'', [shopHtml ''Clinic A'' ''9-5'' ''Sun'' [] [] []])]]"
    by (simp add: init_slots st demo_east_contents [OF sl, of "''#000''" "''#fff''"])
  from c1 c2 c3 c4 show ?thesis
    by (intro conjI)
qed

section \<open>The reporter's resize handling\<close>




section \<open>init never rejects\<close>




end
